theory Spec2Isabelle
  imports Complex_Main
begin

section \<open>Server optimizer plugin: data model\<close>

text \<open>
  The plugin class \<^verbatim>\<open>ServerOptimizerPlugin\<close> of
  \<^verbatim>\<open>server_optimizer_plugin.py\<close> keeps all of its state in attributes that
  \<^verbatim>\<open>on_load\<close> initialises. The attributes that are assigned once in
  \<^verbatim>\<open>on_load\<close> and only read afterwards (the thresholds and bounds) are constants
  here; every attribute that some method writes is a field of the record
  \<open>optimizer\<close>. Python's unbounded integers are \<open>int\<close>. Clock readings
  (\<^verbatim>\<open>time.time()\<close>) are finite floats and are given by the rational number
  they denote; tick durations and TPS values are computed in floating-point
  arithmetic and are values of the type \<open>double\<close> below.
\<close>

subsection \<open>Floating-point numbers\<close>

text \<open>
  A Python float is an IEEE 754 double: a finite number, given here by the
  rational it denotes, an infinity, or a NaN. The two zeros are one value
  here: the plugin never divides by a zero and never asks for its sign.
\<close>

datatype double = Finite rat | Pos_inf | Neg_inf | NaN

text \<open>
  Rounding to the nearest double, ties to the even significand. A positive
  \<open>x\<close> with \<open>2 ^ e \<le> x < 2 ^ (e + 1)\<close> is rounded to a multiple of
  \<open>2 ^ (e - 52)\<close> (53 significant bits); below \<open>2 ^ (- 1022)\<close> the spacing stays
  \<open>2 ^ (- 1074)\<close> (the subnormal numbers), and a result that reaches
  \<open>2 ^ 1024\<close> is the infinity. \<open>bit_length n\<close> is the number of binary digits of
  \<open>n\<close>, and \<open>scale_fraction k (n, d)\<close> is the fraction \<open>n / d\<close> times \<open>2 ^ k\<close>.
\<close>

definition pow2 :: "int \<Rightarrow> rat" where
  "pow2 k = (if 0 \<le> k then of_int (2 ^ nat k) else 1 / of_int (2 ^ nat (- k)))"

function bit_length :: "int \<Rightarrow> int" where
  "bit_length n = (if n \<le> 0 then 0 else 1 + bit_length (n div 2))"
  by pat_completeness auto

termination
  by (relation "measure nat") auto

declare bit_length.simps [simp del]

definition scale_fraction :: "int \<Rightarrow> int \<times> int \<Rightarrow> int \<times> int" where
  "scale_fraction k f =
     (if 0 \<le> k then (fst f * 2 ^ nat k, snd f) else (fst f, snd f * 2 ^ nat (- k)))"

text \<open>The \<open>e\<close> with \<open>2 ^ e \<le> x < 2 ^ (e + 1)\<close>, for a positive \<open>x\<close>.\<close>

definition exponent_of :: "rat \<Rightarrow> int" where
  "exponent_of x =
     (let f = quotient_of x;
          k = bit_length (fst f) - bit_length (snd f);
          g = scale_fraction (- k) f
      in if snd g \<le> fst g then k else k - 1)"

text \<open>The integer nearest to a non-negative fraction, the even one at a tie.\<close>

definition round_half_even :: "int \<times> int \<Rightarrow> int" where
  "round_half_even f =
     (let q = fst f div snd f;
          r = fst f mod snd f
      in if 2 * r < snd f then q
         else if snd f < 2 * r then q + 1
         else if even q then q else q + 1)"

definition round_positive :: "rat \<Rightarrow> double" where
  "round_positive x =
     (let e = max (exponent_of x) (- 1022);
          n = round_half_even (scale_fraction (52 - e) (quotient_of x))
      in if 1024 \<le> e \<or> (e = 1023 \<and> n = 2 ^ 53) then Pos_inf
         else Finite (of_int n * pow2 (e - 52)))"

fun float_neg :: "double \<Rightarrow> double" where
  "float_neg (Finite a) = Finite (- a)"
| "float_neg Pos_inf = Neg_inf"
| "float_neg Neg_inf = Pos_inf"
| "float_neg NaN = NaN"

definition round_double :: "rat \<Rightarrow> double" where
  "round_double x =
     (if x = 0 then Finite 0
      else if 0 < x then round_positive x
      else float_neg (round_positive (- x)))"

text \<open>
  The arithmetic the plugin uses. Each operation on finite numbers returns
  the exact result, rounded; none raises on overflow. \<open>float_sub\<close> is the
  difference of two clock readings.
\<close>

definition float_sub :: "rat \<Rightarrow> rat \<Rightarrow> double" where
  "float_sub a b = round_double (a - b)"

fun float_add :: "double \<Rightarrow> double \<Rightarrow> double" where
  "float_add (Finite a) (Finite b) = round_double (a + b)"
| "float_add NaN y = NaN"
| "float_add x NaN = NaN"
| "float_add Pos_inf Neg_inf = NaN"
| "float_add Neg_inf Pos_inf = NaN"
| "float_add Pos_inf y = Pos_inf"
| "float_add x Pos_inf = Pos_inf"
| "float_add Neg_inf y = Neg_inf"
| "float_add x Neg_inf = Neg_inf"

text \<open>
  \<^verbatim>\<open>sum(xs)\<close> over floats: starting from the integer 0, the items are added
  from left to right and every addition rounds. (This is the loop of CPython
  up to version 3.11; later versions carry a correction term along, which can
  change the last bits of a sum.)
\<close>

definition float_sum :: "double list \<Rightarrow> double" where
  "float_sum w = foldl float_add (Finite 0) w"

text \<open>
  \<^verbatim>\<open>x / y\<close>. Python raises \<^verbatim>\<open>ZeroDivisionError\<close> when \<open>y\<close> is zero; the plugin
  divides only by the number of samples, which is at least 20 there, and by
  an average it has just found different from 0, so that case is never
  reached and is given the value NaN.
\<close>

fun float_div :: "double \<Rightarrow> double \<Rightarrow> double" where
  "float_div (Finite a) (Finite b) = (if b = 0 then NaN else round_double (a / b))"
| "float_div NaN y = NaN"
| "float_div x NaN = NaN"
| "float_div (Finite a) y = Finite 0"
| "float_div Pos_inf (Finite b) = (if b < 0 then Neg_inf else Pos_inf)"
| "float_div Neg_inf (Finite b) = (if b < 0 then Pos_inf else Neg_inf)"
| "float_div x y = NaN"

text \<open>
  \<^verbatim>\<open>x < y\<close> and \<^verbatim>\<open>x <= y\<close> (so \<^verbatim>\<open>x >= y\<close> is \<open>float_le y x\<close>): every comparison
  with a NaN is false.
\<close>

fun float_lt :: "double \<Rightarrow> double \<Rightarrow> bool" where
  "float_lt (Finite a) (Finite b) = (a < b)"
| "float_lt (Finite a) Pos_inf = True"
| "float_lt Neg_inf (Finite b) = True"
| "float_lt Neg_inf Pos_inf = True"
| "float_lt x y = False"

fun float_le :: "double \<Rightarrow> double \<Rightarrow> bool" where
  "float_le (Finite a) (Finite b) = (a \<le> b)"
| "float_le (Finite a) Pos_inf = True"
| "float_le Neg_inf (Finite b) = True"
| "float_le Neg_inf Neg_inf = True"
| "float_le Neg_inf Pos_inf = True"
| "float_le Pos_inf Pos_inf = True"
| "float_le x y = False"

text \<open>\<^verbatim>\<open>min(x, y)\<close> of two arguments: \<open>y\<close> if \<^verbatim>\<open>y < x\<close>, else \<open>x\<close>.\<close>

definition py_min :: "double \<Rightarrow> double \<Rightarrow> double" where
  "py_min x y = (if float_lt y x then y else x)"

subsection \<open>Constants, players and messages\<close>

definition min_view_distance :: int where "min_view_distance = 4"
definition max_view_distance :: int where "max_view_distance = 12"
definition base_view_distance :: int where "base_view_distance = 8"
definition max_chunks_per_player :: int where "max_chunks_per_player = 64"
definition tps_critical :: double where "tps_critical = Finite 15"
definition tps_warning :: double where "tps_warning = Finite 18"
definition optimization_interval :: double where "optimization_interval = Finite 120"
definition lag_alert_cooldown :: double where "lag_alert_cooldown = Finite 60"
definition max_players_critical :: int where "max_players_critical = 100"
definition max_chunks_critical :: int where "max_chunks_critical = 5000"

text \<open>
  A player (or any command sender) as the host presents it: its name, the
  operator flag and the permissions it holds.
\<close>

record player =
  player_name :: string
  is_op :: bool
  perms :: "string list"

definition has_permission :: "player \<Rightarrow> string \<Rightarrow> bool" where
  "has_permission p perm = (perm \<in> set (perms p))"

text \<open>The test \<^verbatim>\<open>player.is_op or player.has_permission("serveropt.admin")\<close>.\<close>

definition is_admin :: "player \<Rightarrow> bool" where
  "is_admin p = (is_op p \<or> has_permission p ''serveropt.admin'')"

text \<open>
  The one-shot closures the plugin hands to the host scheduler:
  \<^verbatim>\<open>restore_normal\<close> (from \<^verbatim>\<open>emergency_crash_recovery\<close>) and
  \<^verbatim>\<open>send_info\<close> (from \<^verbatim>\<open>on_player_join\<close>, for the named player).
\<close>

datatype task = Restore_normal | Send_info string

datatype colour = Green | Yellow | Gold | Red

text \<open>
  The texts sent to players and command senders, and the one line of the
  log that is kept. The literal strings of the source carry colour codes
  outside ASCII, so each text is a constructor that keeps the values the
  source formats into it.
\<close>

datatype message =
    No_permission
  | Usage_line nat
  | Running_full_optimization
  | Optimization_complete
  | Unknown_subcommand string
  | Tps_report colour double
  | Lag_header
  | Lag_tps double
  | Lag_players nat
  | Vd_current int
  | Vd_auto_adjust bool
  | Vd_auto_set bool
  | Vd_out_of_range
  | Vd_set int
  | Vd_not_a_number
  | View_none
  | View_header
  | View_entry string
  | Player_not_found string
  | View_disabled string
  | View_disabled_notice
  | View_enabled string
  | View_enabled_notice
  | Status_rule
  | Status_title
  | Status_tps colour double
  | Status_health colour int
  | Status_players nat
  | Status_view_distance int
  | Status_total int
  | Low_tps_warning colour double
  | Emergency_notice
  | Display_text colour double nat int
  | Info_header
  | Info_tps colour double
  | Settings_restored

text \<open>
  What a method sends: to whom (by name) and which text. \<open>Log_info\<close> is a line
  written to the log; only the line by which \<^verbatim>\<open>restore_normal\<close> reports that it
  has run is kept, the other log lines are left out.
\<close>

datatype event =
    Send_message string message
  | Send_error_message string message
  | Send_popup string message
  | Log_info message

record optimizer =
  tick_times :: "double list"
  tps_history :: "double list"
  last_tick :: rat
  auto_optimize :: bool
  aggressive_mode :: bool
  last_optimization :: rat
  loaded_chunks :: "string \<rightharpoonup> int"
  auto_view_distance :: bool
  current_view_distance :: int
  afk_players :: "string list"
  player_positions :: "string list"
  total_optimizations :: int
  chunks_cleared_total :: int
  entities_removed_total :: int
  last_lag_alert :: rat
  performance_viewers :: "string list"
  health_score :: int
  health_history :: "int list"
  scheduled :: "(nat \<times> task) list"

text \<open>
  \<open>afk_players\<close>, \<open>performance_viewers\<close> are Python sets and
  \<open>player_positions\<close> a dict of which only the keys are ever used; they are
  lists without repetition here (insertion checks membership first). The
  fields \<open>last_tick\<close>, \<open>last_optimization\<close> and \<open>last_lag_alert\<close> hold a clock
  reading or the integer 0. The field \<open>scheduled\<close> is the host scheduler's
  queue of this plugin's pending one-shot tasks, each with the ticks left
  before it runs.
\<close>

text \<open>\<^verbatim>\<open>on_load\<close>: the initial state; \<open>now\<close> is the clock reading it takes.\<close>

definition on_load :: "rat \<Rightarrow> optimizer" where
  "on_load now = \<lparr>
     tick_times = [],
     tps_history = [],
     last_tick = now,
     auto_optimize = True,
     aggressive_mode = False,
     last_optimization = 0,
     loaded_chunks = Map.empty,
     auto_view_distance = True,
     current_view_distance = base_view_distance,
     afk_players = [],
     player_positions = [],
     total_optimizations = 0,
     chunks_cleared_total = 0,
     entities_removed_total = 0,
     last_lag_alert = 0,
     performance_viewers = [],
     health_score = 100,
     health_history = [],
     scheduled = [] \<rparr>"

section \<open>Sample buffer and TPS estimator\<close>

text \<open>
  \<^verbatim>\<open>deque(maxlen=n).append(x)\<close>: the new element goes to the right end and,
  if the deque was full, the oldest one is dropped from the left.
\<close>

definition deque_append :: "nat \<Rightarrow> 'a list \<Rightarrow> 'a \<Rightarrow> 'a list" where
  "deque_append maxlen xs x = (let ys = xs @ [x] in drop (length ys - maxlen) ys)"

text \<open>
  \<^verbatim>\<open>calculate_tps\<close>, lines 482-495. The sum, the division by the number of
  samples and the division of 1.0 by the average are floating-point
  operations.
\<close>

definition calculate_tps :: "optimizer \<Rightarrow> double" where
  "calculate_tps s =
     (if length (tick_times s) < 20 then Finite 20
      else
        let recent_ticks = tick_times s;
            avg_tick_time =
              float_div (float_sum recent_ticks) (Finite (of_nat (length recent_ticks)))
        in if avg_tick_time = Finite 0 then Finite 20
           else py_min (Finite 20) (float_div (Finite 1) avg_tick_time))"

text \<open>
  The average of a window, as the specification words it, computed in
  floating-point arithmetic.
\<close>

definition window_average :: "double list \<Rightarrow> double" where
  "window_average w = float_div (float_sum w) (Finite (of_nat (length w)))"

definition get_tps_color :: "double \<Rightarrow> colour" where
  "get_tps_color tps =
     (if float_le (Finite 19) tps then Green
      else if float_le (Finite 18) tps then Yellow
      else if float_le (Finite 15) tps then Gold
      else Red)"

definition get_health_color :: "optimizer \<Rightarrow> colour" where
  "get_health_color s =
     (if health_score s \<ge> 80 then Green
      else if health_score s \<ge> 60 then Yellow
      else if health_score s \<ge> 40 then Gold
      else Red)"

text \<open>\<^verbatim>\<open>self.loaded_chunks.get("estimated", default)\<close>.\<close>

definition get_estimated :: "optimizer \<Rightarrow> int \<Rightarrow> int" where
  "get_estimated s dflt = (case loaded_chunks s ''estimated'' of None \<Rightarrow> dflt | Some v \<Rightarrow> v)"

section \<open>Optimization actions\<close>

text \<open>\<^verbatim>\<open>optimize_chunks\<close>, lines 457-469: the returned count and the new state.\<close>

definition optimize_chunks :: "optimizer \<Rightarrow> int \<times> optimizer" where
  "optimize_chunks s =
     (let threshold = (if aggressive_mode s then 300 else 500);
          estimated_chunks = get_estimated s 0
      in if estimated_chunks > threshold
         then (let count = estimated_chunks - threshold
               in (count, s\<lparr>loaded_chunks := Map.empty,
                            chunks_cleared_total := chunks_cleared_total s + count\<rparr>))
         else (0, s))"

text \<open>\<^verbatim>\<open>optimize_entities\<close>, lines 471-475.\<close>

definition optimize_entities :: "optimizer \<Rightarrow> int \<times> optimizer" where
  "optimize_entities s =
     (let count = (if \<not> aggressive_mode s then 50 else 100)
      in (count, s\<lparr>entities_removed_total := entities_removed_total s + count\<rparr>))"

text \<open>
  \<^verbatim>\<open>optimize_memory\<close> runs the garbage collector and writes a log line; no
  attribute of the plugin changes.
\<close>

definition optimize_memory :: "optimizer \<Rightarrow> optimizer" where
  "optimize_memory s = s"

section \<open>Alerting\<close>

text \<open>
  \<^verbatim>\<open>notify_admins_lag\<close>, lines 533-545; \<open>current_time\<close> is the clock reading it
  takes and \<open>online\<close> is \<^verbatim>\<open>self.server.online_players\<close>.
\<close>

definition notify_admins_lag ::
  "rat \<Rightarrow> player list \<Rightarrow> double \<Rightarrow> optimizer \<Rightarrow> event list \<times> optimizer" where
  "notify_admins_lag current_time online tps s =
     (if float_lt (float_sub current_time (last_lag_alert s)) lag_alert_cooldown then ([], s)
      else (map (\<lambda>p. Send_message (player_name p) (Low_tps_warning (get_tps_color tps) tps))
                (filter is_admin online),
            s\<lparr>last_lag_alert := current_time\<rparr>))"

section \<open>Emergency recovery\<close>

text \<open>
  Modelled from the spec: the host scheduler's \<^verbatim>\<open>run_task(plugin, fn, delay=d)\<close>
  (\<^verbatim>\<open>scheduleOnce(delayTicks, fn)\<close> of the specification) is not part of the
  repository. It queues \<open>fn\<close> to run once, \<open>d\<close> ticks later; nothing is
  cancelled or replaced by queueing.
\<close>

definition run_task_later :: "task \<Rightarrow> nat \<Rightarrow> optimizer \<Rightarrow> optimizer" where
  "run_task_later t delay s = s\<lparr>scheduled := scheduled s @ [(delay, t)]\<rparr>"

text \<open>
  The closure \<^verbatim>\<open>restore_normal\<close>, lines 651-654: two assignments and the log
  line that reports them.
\<close>

definition restore_normal :: "optimizer \<Rightarrow> event list \<times> optimizer" where
  "restore_normal s =
     ([Log_info Settings_restored],
      s\<lparr>current_view_distance := base_view_distance, aggressive_mode := False\<rparr>)"

text \<open>
  \<^verbatim>\<open>emergency_crash_recovery\<close>, lines 628-659. Its body is a single
  \<^verbatim>\<open>try\<close> block whose handler only writes a log line, and the call that hands
  \<^verbatim>\<open>restore_normal\<close> to the scheduler is the last statement of the block. The
  calls into the host come after the assignments and the three optimizations:
  reading the online players, reading a player's flags, sending a notice,
  and the scheduling itself. \<open>fault\<close> says whether one of them raises: \<open>None\<close>
  if none does, \<open>Some k\<close> if one raises when \<open>k\<close> notices have gone out (with \<open>k\<close>
  the number of admins online, it is the scheduling call that raises). What
  was assigned before the exception stays, and no restoration is scheduled.
\<close>

definition emergency_crash_recovery ::
  "player list \<Rightarrow> nat option \<Rightarrow> optimizer \<Rightarrow> event list \<times> optimizer" where
  "emergency_crash_recovery online fault s =
     (let s1 = s\<lparr>current_view_distance := min_view_distance\<rparr>;
          s2 = s1\<lparr>aggressive_mode := True\<rparr>;
          s3 = snd (optimize_chunks s2);
          s4 = snd (optimize_entities s3);
          s5 = optimize_memory s4;
          msgs = map (\<lambda>p. Send_message (player_name p) Emergency_notice) (filter is_admin online)
      in case fault of
           None \<Rightarrow> (msgs, run_task_later Restore_normal 6000 s5)
         | Some k \<Rightarrow> (take k msgs, s5))"

text \<open>How many restorations are pending in the scheduler's queue.\<close>

definition is_restoration :: "nat \<times> task \<Rightarrow> bool" where
  "is_restoration e = (snd e = Restore_normal)"

definition pending_restorations :: "optimizer \<Rightarrow> nat" where
  "pending_restorations s = length (filter is_restoration (scheduled s))"

section \<open>Periodic tasks\<close>

text \<open>
  \<^verbatim>\<open>monitor_performance\<close>, lines 373-392. It reads the clock once itself
  (\<open>current_time\<close>) and once more inside \<^verbatim>\<open>notify_admins_lag\<close> (\<open>alert_time\<close>).
\<close>

definition monitor_performance ::
  "rat \<Rightarrow> rat \<Rightarrow> player list \<Rightarrow> optimizer \<Rightarrow> event list \<times> optimizer" where
  "monitor_performance current_time alert_time online s =
     (let tick_duration = float_sub current_time (last_tick s);
          s1 = s\<lparr>last_tick := current_time\<rparr>;
          s2 = s1\<lparr>tick_times := deque_append 200 (tick_times s1) tick_duration\<rparr>;
          tps = calculate_tps s2;
          s3 = s2\<lparr>tps_history := deque_append 60 (tps_history s2) tps\<rparr>;
          online_players = int (length online);
          estimated_chunks = online_players * max_chunks_per_player;
          s4 = s3\<lparr>loaded_chunks := (loaded_chunks s3)(''estimated'' \<mapsto> estimated_chunks)\<rparr>
      in if float_lt tps tps_critical then notify_admins_lag alert_time online tps s4
         else ([], s4))"

text \<open>\<^verbatim>\<open>fast_optimization_check\<close>, lines 394-401.\<close>

definition fast_optimization_check ::
  "player list \<Rightarrow> nat option \<Rightarrow> optimizer \<Rightarrow> event list \<times> optimizer" where
  "fast_optimization_check online fault s =
     (if \<not> auto_optimize s then ([], s)
      else let tps = calculate_tps s
           in if float_lt tps tps_critical then emergency_crash_recovery online fault s
              else ([], s))"

text \<open>\<^verbatim>\<open>auto_optimize_task\<close>, lines 403-417.\<close>

definition auto_optimize_task :: "rat \<Rightarrow> optimizer \<Rightarrow> optimizer" where
  "auto_optimize_task current_time s =
     (if \<not> auto_optimize s then s
      else let tps = calculate_tps s
           in if float_lt tps tps_warning \<or>
                 float_le optimization_interval (float_sub current_time (last_optimization s))
              then (let s1 = snd (optimize_chunks s);
                        s2 = snd (optimize_entities s1);
                        s3 = s2\<lparr>last_optimization := current_time\<rparr>
                    in s3\<lparr>total_optimizations := total_optimizations s3 + 1\<rparr>)
              else s)"

text \<open>\<^verbatim>\<open>cleanup_chunks\<close>, lines 419-428.\<close>

definition cleanup_chunks :: "optimizer \<Rightarrow> optimizer" where
  "cleanup_chunks s =
     (if \<not> auto_optimize s then s
      else if get_estimated s 0 > 500
           then (let to_clear = get_estimated s 500 - 500
                 in s\<lparr>loaded_chunks := Map.empty,
                      chunks_cleared_total := chunks_cleared_total s + to_clear\<rparr>)
           else s)"

text \<open>\<^verbatim>\<open>adjust_view_distance\<close>, lines 435-451.\<close>

definition adjust_view_distance :: "optimizer \<Rightarrow> optimizer" where
  "adjust_view_distance s =
     (if \<not> auto_view_distance s then s
      else let tps = calculate_tps s;
               target_vd =
                 (if float_le (Finite (39 / 2)) tps \<and> current_view_distance s < max_view_distance
                  then min max_view_distance (current_view_distance s + 1)
                  else if float_lt tps (Finite 17) \<and> current_view_distance s > min_view_distance
                  then max min_view_distance (current_view_distance s - 1)
                  else if float_lt tps tps_critical then min_view_distance
                  else current_view_distance s)
           in if target_vd \<noteq> current_view_distance s
              then s\<lparr>current_view_distance := target_vd\<rparr> else s)"

text \<open>\<^verbatim>\<open>periodic_memory_cleanup\<close>, lines 453-455.\<close>

definition periodic_memory_cleanup :: "optimizer \<Rightarrow> optimizer" where
  "periodic_memory_cleanup s = (if auto_optimize s then optimize_memory s else s)"

text \<open>\<^verbatim>\<open>monitor_overload\<close>, lines 547-572.\<close>

definition monitor_overload ::
  "player list \<Rightarrow> nat option \<Rightarrow> optimizer \<Rightarrow> event list \<times> optimizer" where
  "monitor_overload online fault s =
     (let online_players = int (length online);
          estimated_chunks = get_estimated s 0;
          overload_detected =
            (online_players \<ge> max_players_critical \<or> estimated_chunks \<ge> max_chunks_critical)
      in if overload_detected then emergency_crash_recovery online fault s else ([], s))"

text \<open>\<^verbatim>\<open>check_server_health\<close>, lines 574-593.\<close>

definition check_server_health :: "optimizer \<Rightarrow> optimizer" where
  "check_server_health s =
     (let tps = calculate_tps s;
          health = (if float_le (Finite (39 / 2)) tps then 100
                    else if float_le (Finite 18) tps then 80
                    else if float_le (Finite 15) tps then 60
                    else 40);
          s1 = s\<lparr>health_score := health\<rparr>
      in s1\<lparr>health_history := deque_append 60 (health_history s1) health\<rparr>)"

text \<open>
  \<^verbatim>\<open>update_performance_display\<close>, lines 661-683. \<^verbatim>\<open>server.get_player(name)\<close>
  is the online player of that name, if there is one.
\<close>

definition get_player :: "player list \<Rightarrow> string \<Rightarrow> player option" where
  "get_player online pname = find (\<lambda>p. player_name p = pname) online"

definition update_performance_display :: "player list \<Rightarrow> optimizer \<Rightarrow> event list \<times> optimizer" where
  "update_performance_display online s =
     (if performance_viewers s = [] then ([], s)
      else let tps = calculate_tps s;
               display_text = Display_text (get_tps_color tps) tps (length online)
                                (current_view_distance s);
               reachable_viewers =
                 filter (\<lambda>v. get_player online v \<noteq> None) (performance_viewers s)
           in (map (\<lambda>v. Send_popup v display_text) reachable_viewers,
               s\<lparr>performance_viewers := reachable_viewers\<rparr>))"

section \<open>Commands\<close>

text \<open>
  \<^verbatim>\<open>str.lower()\<close> on the ASCII letters; the command words compared against
  are ASCII.
\<close>

definition lower_char :: "char \<Rightarrow> char" where
  "lower_char c =
     (let n = (of_char c :: nat) in if 65 \<le> n \<and> n \<le> 90 then char_of (n + 32) else c)"

definition str_lower :: "string \<Rightarrow> string" where
  "str_lower = map lower_char"

text \<open>
  \<^verbatim>\<open>handle_viewdistance_command\<close>, lines 293-323. \<open>py_int\<close> is Python's
  \<^verbatim>\<open>int(str)\<close>, with \<open>None\<close> for its \<^verbatim>\<open>ValueError\<close>. The result is the
  returned flag, what was sent, and the new state.
\<close>

definition handle_viewdistance_command ::
  "(string \<Rightarrow> int option) \<Rightarrow> player \<Rightarrow> string list \<Rightarrow> optimizer \<Rightarrow> bool \<times> event list \<times> optimizer" where
  "handle_viewdistance_command py_int sender args s =
     (if \<not> has_permission sender ''serveropt.command.viewdistance''
      then (False, [Send_error_message (player_name sender) No_permission], s)
      else case args of
        [] \<Rightarrow> (True, [Send_message (player_name sender) (Vd_current (current_view_distance s)),
                     Send_message (player_name sender) (Vd_auto_adjust (auto_view_distance s))], s)
      | a # _ \<Rightarrow>
          if str_lower a = ''auto''
          then (let s1 = s\<lparr>auto_view_distance := \<not> auto_view_distance s\<rparr>
                in (True, [Send_message (player_name sender) (Vd_auto_set (auto_view_distance s1))], s1))
          else (case py_int a of
                  None \<Rightarrow> (False, [Send_error_message (player_name sender) Vd_not_a_number], s)
                | Some vd \<Rightarrow>
                    if vd < min_view_distance \<or> vd > max_view_distance
                    then (False, [Send_error_message (player_name sender) Vd_out_of_range], s)
                    else (let s1 = s\<lparr>current_view_distance := vd\<rparr>;
                              s2 = s1\<lparr>auto_view_distance := False\<rparr>
                          in (True, [Send_message (player_name sender) (Vd_set vd)], s2))))"

text \<open>\<^verbatim>\<open>show_detailed_status\<close>, lines 358-371.\<close>

definition show_detailed_status :: "player \<Rightarrow> player list \<Rightarrow> optimizer \<Rightarrow> event list" where
  "show_detailed_status sender online s =
     (let tps = calculate_tps s
      in map (Send_message (player_name sender))
           [Status_rule, Status_title, Status_rule,
            Status_tps (get_tps_color tps) tps,
            Status_health (get_health_color s) (health_score s),
            Status_players (length online),
            Status_view_distance (current_view_distance s),
            Status_total (total_optimizations s),
            Status_rule])"

text \<open>\<^verbatim>\<open>handle_performance_view\<close>, lines 325-356.\<close>

definition handle_performance_view ::
  "player \<Rightarrow> string list \<Rightarrow> player list \<Rightarrow> optimizer \<Rightarrow> bool \<times> event list \<times> optimizer" where
  "handle_performance_view sender args online s =
     (if length args < 2
      then (if performance_viewers s = []
            then (True, [Send_message (player_name sender) View_none], s)
            else (True, Send_message (player_name sender) View_header #
                        map (\<lambda>v. Send_message (player_name sender) (View_entry v))
                          (performance_viewers s), s))
      else let target_name = args ! 1
           in case find (\<lambda>p. str_lower (player_name p) = str_lower target_name) online of
                None \<Rightarrow> (False, [Send_error_message (player_name sender) (Player_not_found target_name)], s)
              | Some target_player \<Rightarrow>
                  if player_name target_player \<in> set (performance_viewers s)
                  then (True,
                        [Send_message (player_name sender) (View_disabled (player_name target_player)),
                         Send_message (player_name target_player) View_disabled_notice],
                        s\<lparr>performance_viewers :=
                             removeAll (player_name target_player) (performance_viewers s)\<rparr>)
                  else (True,
                        [Send_message (player_name sender) (View_enabled (player_name target_player)),
                         Send_message (player_name target_player) View_enabled_notice],
                        s\<lparr>performance_viewers :=
                             performance_viewers s @ [player_name target_player]\<rparr>))"

text \<open>\<^verbatim>\<open>handle_optimize_command\<close>, lines 248-276.\<close>

definition handle_optimize_command ::
  "player \<Rightarrow> string list \<Rightarrow> player list \<Rightarrow> optimizer \<Rightarrow> bool \<times> event list \<times> optimizer" where
  "handle_optimize_command sender args online s =
     (if \<not> has_permission sender ''serveropt.command.optimize''
      then (False, [Send_error_message (player_name sender) No_permission], s)
      else case args of
        [] \<Rightarrow> (True, map (\<lambda>i. Send_message (player_name sender) (Usage_line i)) [0, 1, 2, 3], s)
      | a # _ \<Rightarrow>
          (let action = str_lower a
           in if action = ''status''
              then (True, show_detailed_status sender online s, s)
              else if action = ''full''
              then (let s1 = snd (optimize_chunks s);
                        s2 = snd (optimize_entities s1);
                        s3 = optimize_memory s2
                    in (True, [Send_message (player_name sender) Running_full_optimization,
                               Send_message (player_name sender) Optimization_complete], s3))
              else if action = ''view''
              then handle_performance_view sender args online s
              else (False, [Send_error_message (player_name sender) (Unknown_subcommand action)], s)))"

text \<open>\<^verbatim>\<open>handle_tps_command\<close> and \<^verbatim>\<open>handle_lag_command\<close>, lines 278-291.\<close>

definition handle_tps_command :: "player \<Rightarrow> optimizer \<Rightarrow> bool \<times> event list \<times> optimizer" where
  "handle_tps_command sender s =
     (let tps = calculate_tps s
      in (True, [Send_message (player_name sender) (Tps_report (get_tps_color tps) tps)], s))"

definition handle_lag_command :: "player \<Rightarrow> player list \<Rightarrow> optimizer \<Rightarrow> bool \<times> event list \<times> optimizer" where
  "handle_lag_command sender online s =
     (let tps = calculate_tps s
      in (True, map (Send_message (player_name sender))
                  [Lag_header, Lag_tps tps, Lag_players (length online)], s))"

text \<open>\<^verbatim>\<open>on_command\<close>, lines 236-246; \<open>cmd\<close> is \<^verbatim>\<open>command.name\<close>.\<close>

definition on_command ::
  "(string \<Rightarrow> int option) \<Rightarrow> player \<Rightarrow> string \<Rightarrow> string list \<Rightarrow> player list \<Rightarrow> optimizer
     \<Rightarrow> bool \<times> event list \<times> optimizer" where
  "on_command py_int sender cmd args online s =
     (if cmd = ''optimize'' then handle_optimize_command sender args online s
      else if cmd = ''tps'' then handle_tps_command sender s
      else if cmd = ''lag'' then handle_lag_command sender online s
      else if cmd = ''viewdistance'' then handle_viewdistance_command py_int sender args s
      else (False, [], s))"

section \<open>Events and scheduled one-shot tasks\<close>

text \<open>\<^verbatim>\<open>on_player_join\<close>, lines 689-703, and \<^verbatim>\<open>on_player_quit\<close>, lines 705-716.\<close>

definition on_player_join :: "player \<Rightarrow> optimizer \<Rightarrow> optimizer" where
  "on_player_join p s =
     (if is_admin p then run_task_later (Send_info (player_name p)) 40 s else s)"

definition on_player_quit :: "string \<Rightarrow> optimizer \<Rightarrow> optimizer" where
  "on_player_quit pname s =
     (let s1 = (if pname \<in> set (afk_players s)
                then s\<lparr>afk_players := removeAll pname (afk_players s)\<rparr> else s);
          s2 = (if pname \<in> set (player_positions s1)
                then s1\<lparr>player_positions := removeAll pname (player_positions s1)\<rparr> else s1)
      in if pname \<in> set (performance_viewers s2)
         then s2\<lparr>performance_viewers := removeAll pname (performance_viewers s2)\<rparr> else s2)"

text \<open>
  The closure \<^verbatim>\<open>send_info\<close>, lines 695-701. It reads the player's flags again
  when it runs; the player is looked up among those online at that moment.
\<close>

definition send_info :: "string \<Rightarrow> player list \<Rightarrow> optimizer \<Rightarrow> event list" where
  "send_info pname online s =
     (case get_player online pname of
        None \<Rightarrow> []
      | Some p \<Rightarrow>
          if is_admin p
          then (let tps = calculate_tps s
                in [Send_message pname Info_header,
                    Send_message pname (Info_tps (get_tps_color tps) tps)])
          else [])"

fun run_task :: "player list \<Rightarrow> task \<Rightarrow> optimizer \<Rightarrow> event list \<times> optimizer" where
  "run_task online Restore_normal s = restore_normal s"
| "run_task online (Send_info pname) s = (send_info pname online s, s)"

fun run_tasks :: "player list \<Rightarrow> task list \<Rightarrow> optimizer \<Rightarrow> event list \<times> optimizer" where
  "run_tasks online [] s = ([], s)"
| "run_tasks online (t # ts) s =
     (let r1 = run_task online t s;
          r2 = run_tasks online ts (snd r1)
      in (fst r1 @ fst r2, snd r2))"

text \<open>
  Modelled from the spec: one tick of the host scheduler, which is not part
  of the repository. Every queued one-shot task whose delay has run out is
  taken off the queue and run, once; the others wait one tick less.
\<close>

definition scheduler_tick :: "player list \<Rightarrow> optimizer \<Rightarrow> event list \<times> optimizer" where
  "scheduler_tick online s =
     (let due = filter (\<lambda>e. fst e \<le> 1) (scheduled s);
          later = map (\<lambda>e. (fst e - 1, snd e)) (filter (\<lambda>e. fst e > 1) (scheduled s))
      in run_tasks online (map snd due) (s\<lparr>scheduled := later\<rparr>))"

text \<open>
  Consecutive ticks of the scheduler with no other plugin code in between;
  the list gives the players online at each tick.
\<close>

fun scheduler_ticks :: "player list list \<Rightarrow> optimizer \<Rightarrow> event list \<times> optimizer" where
  "scheduler_ticks [] s = ([], s)"
| "scheduler_ticks (online # rest) s =
     (let r1 = scheduler_tick online s;
          r2 = scheduler_ticks rest (snd r1)
      in (fst r1 @ fst r2, snd r2))"

text \<open>
  How many times \<^verbatim>\<open>restore_normal\<close> has run, read off what was sent and logged;
  and whether a queued task falls due within the next \<open>n\<close> ticks.
\<close>

definition restorations_run :: "event list \<Rightarrow> nat" where
  "restorations_run evs = length (filter (\<lambda>e. e = Log_info Settings_restored) evs)"

definition due_within :: "nat \<Rightarrow> nat \<times> task \<Rightarrow> bool" where
  "due_within n e = (0 < n \<and> fst e \<le> n)"

text \<open>A queued restoration that the next tick of the scheduler runs.\<close>

definition restoration_due :: "nat \<times> task \<Rightarrow> bool" where
  "restoration_due e = (is_restoration e \<and> fst e \<le> 1)"

section \<open>The plugin as a transition system\<close>

text \<open>
  Every entry point through which the host runs plugin code after
  \<^verbatim>\<open>on_load\<close>: the periodic tasks registered by \<^verbatim>\<open>on_enable\<close>, the
  commands, the two player events and the scheduler's tick that runs the due
  one-shot tasks. Each carries what the host supplies at that moment (clock
  readings, the online players, the sender and arguments of a command, and
  for the two tasks that can enter emergency recovery the \<open>fault\<close> of that
  entry). The periodic tasks may come in any order and at any time, which
  covers the schedule \<^verbatim>\<open>on_enable\<close> registers. Calls of the logger and of the
  garbage collector change no attribute and are taken to return normally;
  they are left out, and so are the methods that do nothing else
  (\<^verbatim>\<open>on_server_load\<close>, \<^verbatim>\<open>on_disable\<close>) and those the plugin never calls
  (\<^verbatim>\<open>monitor_task_performance\<close>, \<^verbatim>\<open>get_average_tps\<close>, \<^verbatim>\<open>get_tps_status\<close>,
  \<^verbatim>\<open>get_memory_usage\<close>). Outside \<^verbatim>\<open>emergency_crash_recovery\<close> the calls into
  the host are taken not to raise.
\<close>

datatype operation =
    Monitor_performance rat rat "player list"
  | Fast_optimization_check "player list" "nat option"
  | Auto_optimize_task rat
  | Cleanup_chunks
  | Detect_afk_players
  | Adjust_view_distance
  | Periodic_memory_cleanup
  | Update_performance_display "player list"
  | Monitor_overload "player list" "nat option"
  | Check_server_health
  | Monitor_memory
  | On_command player string "string list" "player list"
  | On_player_join player
  | On_player_quit string
  | Scheduler_tick "player list"

fun step :: "(string \<Rightarrow> int option) \<Rightarrow> operation \<Rightarrow> optimizer \<Rightarrow> event list \<times> optimizer" where
  "step py_int (Monitor_performance t1 t2 online) s = monitor_performance t1 t2 online s"
| "step py_int (Fast_optimization_check online fault) s = fast_optimization_check online fault s"
| "step py_int (Auto_optimize_task t) s = ([], auto_optimize_task t s)"
| "step py_int Cleanup_chunks s = ([], cleanup_chunks s)"
| "step py_int Detect_afk_players s = ([], s)"
| "step py_int Adjust_view_distance s = ([], adjust_view_distance s)"
| "step py_int Periodic_memory_cleanup s = ([], periodic_memory_cleanup s)"
| "step py_int (Update_performance_display online) s = update_performance_display online s"
| "step py_int (Monitor_overload online fault) s = monitor_overload online fault s"
| "step py_int Check_server_health s = ([], check_server_health s)"
| "step py_int Monitor_memory s = ([], s)"
| "step py_int (On_command sender cmd args online) s = snd (on_command py_int sender cmd args online s)"
| "step py_int (On_player_join p) s = ([], on_player_join p s)"
| "step py_int (On_player_quit pname) s = ([], on_player_quit pname s)"
| "step py_int (Scheduler_tick online) s = scheduler_tick online s"

fun is_scheduler_tick :: "operation \<Rightarrow> bool" where
  "is_scheduler_tick (Scheduler_tick online) = True"
| "is_scheduler_tick operation = False"

text \<open>The states the plugin can be in: those reached from \<^verbatim>\<open>on_load\<close> by operations.\<close>

inductive reachable :: "optimizer \<Rightarrow> bool" where
  reachable_init: "reachable (on_load now)"
| reachable_step: "reachable s \<Longrightarrow> reachable (snd (step py_int operation s))"

text \<open>A run of the plugin: the operations of a list, one after the other.\<close>

fun run :: "(string \<Rightarrow> int option) \<Rightarrow> operation list \<Rightarrow> optimizer \<Rightarrow> optimizer" where
  "run py_int [] s = s"
| "run py_int (operation # rest) s = run py_int rest (snd (step py_int operation s))"

text \<open>
  The per-tick monitor run once at each clock reading of a list, with nobody
  online (both clock readings of one invocation are the same).
\<close>

fun record_ticks :: "rat list \<Rightarrow> optimizer \<Rightarrow> optimizer" where
  "record_ticks [] s = s"
| "record_ticks (t # ts) s = record_ticks ts (snd (monitor_performance t t [] s))"

text \<open>The three running totals of \<open>s\<close> are at most those of \<open>s'\<close>.\<close>

definition counters_le :: "optimizer \<Rightarrow> optimizer \<Rightarrow> bool" where
  "counters_le s s' =
     (total_optimizations s \<le> total_optimizations s' \<and>
      chunks_cleared_total s \<le> chunks_cleared_total s' \<and>
      entities_removed_total s \<le> entities_removed_total s')"

text \<open>
  What holds of every state the plugin reaches: the view distance is within
  its bounds, the auto-optimize flag is still as \<^verbatim>\<open>on_load\<close> set it, and the
  two sample windows are within their capacities.
\<close>

definition optimizer_invariant :: "optimizer \<Rightarrow> bool" where
  "optimizer_invariant s =
     (min_view_distance \<le> current_view_distance s \<and>
      current_view_distance s \<le> max_view_distance \<and>
      auto_optimize s \<and>
      length (tick_times s) \<le> 200 \<and>
      length (tps_history s) \<le> 60)"

text \<open>The burst of warnings \<^verbatim>\<open>notify_admins_lag\<close> sends: one to each admin online.\<close>

definition lag_burst :: "player list \<Rightarrow> double \<Rightarrow> event list" where
  "lag_burst online tps =
     map (\<lambda>p. Send_message (player_name p) (Low_tps_warning (get_tps_color tps) tps))
       (filter is_admin online)"

text \<open>No duration of a window is negative.\<close>

definition nonnegative_window :: "double list \<Rightarrow> bool" where
  "nonnegative_window w = list_all (\<lambda>d. float_le (Finite 0) d) w"

section \<open>Concrete inputs\<close>

text \<open>
  Senders, players and a parser at which the theorems below are instantiated.
  \<open>decimal_int\<close> reads a non-empty string of ASCII digits, on which it agrees
  with Python's \<^verbatim>\<open>int\<close>; it stands for \<open>py_int\<close> at those inputs only, and
  every theorem about a command holds for any \<open>py_int\<close>.
\<close>

definition operator_console :: player where
  "operator_console = \<lparr>player_name = ''console'', is_op = True,
     perms = [''serveropt.command.optimize'', ''serveropt.command.viewdistance'']\<rparr>"

definition admin_alice :: player where
  "admin_alice = \<lparr>player_name = ''alice'', is_op = False, perms = [''serveropt.admin'']\<rparr>"

definition guest_bob :: player where
  "guest_bob = \<lparr>player_name = ''bob'', is_op = False, perms = []\<rparr>"

definition digit_value :: "char \<Rightarrow> nat option" where
  "digit_value c =
     (let n = (of_char c :: nat) in if 48 \<le> n \<and> n \<le> 57 then Some (n - 48) else None)"

fun decimal_digits :: "nat \<Rightarrow> string \<Rightarrow> nat option" where
  "decimal_digits acc [] = Some acc"
| "decimal_digits acc (c # cs) =
     (case digit_value c of None \<Rightarrow> None | Some d \<Rightarrow> decimal_digits (10 * acc + d) cs)"

definition decimal_int :: "string \<Rightarrow> int option" where
  "decimal_int a = (if a = [] then None else map_option int (decimal_digits 0 a))"

text \<open>Twenty ticks one second apart, and twenty ticks of a clock that runs backwards.\<close>

definition slow_ticks :: "rat list" where
  "slow_ticks = [1, 2, 3, 4, 5, 6, 7, 8, 9, 10, 11, 12, 13, 14, 15, 16, 17, 18, 19, 20]"

definition backward_ticks :: "rat list" where
  "backward_ticks =
     [99, 98, 97, 96, 95, 94, 93, 92, 91, 90, 89, 88, 87, 86, 85, 84, 83, 82, 81, 80]"



definition quiet_ticks :: "nat \<Rightarrow> player list list" where
  "quiet_ticks n = replicate n []"

section \<open>Facts about the operations\<close>

lemmas view_consts = min_view_distance_def max_view_distance_def base_view_distance_def

lemma length_deque_append: "length (deque_append n xs x) = min n (length xs + 1)"
  by (simp add: deque_append_def Let_def)

lemma pow2_pos: "0 < pow2 k"
  by (simp add: pow2_def)

lemma quotient_of_pos:
  assumes "0 < x"
  shows "0 < fst (quotient_of x) \<and> 0 < snd (quotient_of x)"
proof (cases "quotient_of x")
  case (Pair n d)
  then have d: "0 < d"
    by (rule quotient_of_denom_pos)
  have "x = of_int n / of_int d"
    using Pair by (rule quotient_of_div)
  then have "0 < n"
    using assms d by (simp add: zero_less_divide_iff)
  then show ?thesis
    using d Pair by simp
qed

lemma scale_fraction_pos:
  "0 < fst f \<Longrightarrow> 0 < snd f \<Longrightarrow> 0 < fst (scale_fraction k f) \<and> 0 < snd (scale_fraction k f)"
  by (simp add: scale_fraction_def)

lemma round_half_even_nonneg: "0 \<le> fst f \<Longrightarrow> 0 < snd f \<Longrightarrow> 0 \<le> round_half_even f"
  by (simp add: round_half_even_def Let_def pos_imp_zdiv_nonneg_iff)

lemma round_positive_nonneg: "0 < x \<Longrightarrow> float_le (Finite 0) (round_positive x)"
  using quotient_of_pos [of x]
    scale_fraction_pos [of "quotient_of x" "52 - max (exponent_of x) (- 1022)"]
    round_half_even_nonneg
      [of "scale_fraction (52 - max (exponent_of x) (- 1022)) (quotient_of x)"]
    pow2_pos [of "max (exponent_of x) (- 1022) - 52"]
  by (simp add: round_positive_def Let_def)

lemma round_double_nonneg: "0 \<le> x \<Longrightarrow> float_le (Finite 0) (round_double x)"
  by (simp add: round_double_def round_positive_nonneg)

lemma float_sub_nonneg: "b \<le> a \<Longrightarrow> float_le (Finite 0) (float_sub a b)"
  by (simp add: float_sub_def round_double_nonneg)

lemma float_add_nonneg:
  "float_le (Finite 0) a \<Longrightarrow> float_le (Finite 0) b \<Longrightarrow> float_le (Finite 0) (float_add a b)"
  by (cases a; cases b) (simp_all add: round_double_nonneg)

lemma foldl_float_add_nonneg:
  "float_le (Finite 0) a \<Longrightarrow> list_all (\<lambda>d. float_le (Finite 0) d) w \<Longrightarrow>
   float_le (Finite 0) (foldl float_add a w)"
  by (induction w arbitrary: a) (simp_all add: float_add_nonneg)

lemma float_sum_nonneg: "nonnegative_window w \<Longrightarrow> float_le (Finite 0) (float_sum w)"
  by (simp add: float_sum_def nonnegative_window_def foldl_float_add_nonneg)

lemma float_div_nonneg:
  "float_le (Finite 0) a \<Longrightarrow> 0 < b \<Longrightarrow> float_le (Finite 0) (float_div a (Finite b))"
  by (cases a) (simp_all add: round_double_nonneg)

lemma float_reciprocal_nonneg:
  "float_le (Finite 0) a \<Longrightarrow> a \<noteq> Finite 0 \<Longrightarrow> float_le (Finite 0) (float_div (Finite 1) a)"
  by (cases a) (simp_all add: round_double_nonneg)

lemma float_lt_imp_le: "float_lt a b \<Longrightarrow> float_le a b"
  by (cases a; cases b) simp_all

lemma py_min_le: "float_le (py_min (Finite c) x) (Finite c)"
  by (simp add: py_min_def float_lt_imp_le)

lemma py_min_nonneg:
  "float_le (Finite 0) a \<Longrightarrow> float_le (Finite 0) b \<Longrightarrow> float_le (Finite 0) (py_min a b)"
  by (simp add: py_min_def)

lemma float_lt_not_le: "float_lt x (Finite a) \<Longrightarrow> a \<le> b \<Longrightarrow> \<not> float_le (Finite b) x"
  by (cases x) simp_all

lemma float_le_not_lt: "float_le (Finite b) x \<Longrightarrow> a \<le> b \<Longrightarrow> \<not> float_lt x (Finite a)"
  by (cases x) simp_all

lemma calculate_tps_cong: "tick_times s' = tick_times s \<Longrightarrow> calculate_tps s' = calculate_tps s"
  by (simp add: calculate_tps_def)

lemma calculate_tps_le: "float_le (calculate_tps s) (Finite 20)"
  by (simp add: calculate_tps_def Let_def py_min_le)

lemma calculate_tps_nonneg:
  assumes "nonnegative_window (tick_times s)"
  shows "float_le (Finite 0) (calculate_tps s)"
proof (cases "length (tick_times s) < 20")
  case True
  then show ?thesis
    by (simp add: calculate_tps_def)
next
  case False
  define a where "a = window_average (tick_times s)"
  have "float_le (Finite 0) (float_sum (tick_times s))"
    using assms by (rule float_sum_nonneg)
  then have a: "float_le (Finite 0) a"
    using False unfolding a_def window_average_def
    by (intro float_div_nonneg) auto
  have eq: "calculate_tps s =
      (if a = Finite 0 then Finite 20 else py_min (Finite 20) (float_div (Finite 1) a))"
    using False by (simp add: calculate_tps_def Let_def a_def window_average_def)
  show ?thesis
  proof (cases "a = Finite 0")
    case True
    then show ?thesis by (simp add: eq)
  next
    case False
    then have "float_le (Finite 0) (float_div (Finite 1) a)"
      using a by (simp add: float_reciprocal_nonneg)
    then show ?thesis
      using False by (simp add: eq py_min_nonneg)
  qed
qed

lemma optimize_chunks_fields:
  "current_view_distance (snd (optimize_chunks s)) = current_view_distance s"
  "auto_optimize (snd (optimize_chunks s)) = auto_optimize s"
  "aggressive_mode (snd (optimize_chunks s)) = aggressive_mode s"
  "tick_times (snd (optimize_chunks s)) = tick_times s"
  "tps_history (snd (optimize_chunks s)) = tps_history s"
  "scheduled (snd (optimize_chunks s)) = scheduled s"
  "total_optimizations (snd (optimize_chunks s)) = total_optimizations s"
  "entities_removed_total (snd (optimize_chunks s)) = entities_removed_total s"
  "chunks_cleared_total s \<le> chunks_cleared_total (snd (optimize_chunks s))"
  by (simp_all add: optimize_chunks_def Let_def)

lemma optimize_entities_fields:
  "current_view_distance (snd (optimize_entities s)) = current_view_distance s"
  "auto_optimize (snd (optimize_entities s)) = auto_optimize s"
  "aggressive_mode (snd (optimize_entities s)) = aggressive_mode s"
  "tick_times (snd (optimize_entities s)) = tick_times s"
  "tps_history (snd (optimize_entities s)) = tps_history s"
  "scheduled (snd (optimize_entities s)) = scheduled s"
  "total_optimizations (snd (optimize_entities s)) = total_optimizations s"
  "chunks_cleared_total (snd (optimize_entities s)) = chunks_cleared_total s"
  "entities_removed_total s \<le> entities_removed_total (snd (optimize_entities s))"
  by (simp_all add: optimize_entities_def Let_def)

lemma emergency_fields:
  "current_view_distance (snd (emergency_crash_recovery online fault s)) = min_view_distance"
  "aggressive_mode (snd (emergency_crash_recovery online fault s))"
  "auto_optimize (snd (emergency_crash_recovery online fault s)) = auto_optimize s"
  "tick_times (snd (emergency_crash_recovery online fault s)) = tick_times s"
  "tps_history (snd (emergency_crash_recovery online fault s)) = tps_history s"
  "scheduled (snd (emergency_crash_recovery online None s)) = scheduled s @ [(6000, Restore_normal)]"
  "scheduled (snd (emergency_crash_recovery online (Some k) s)) = scheduled s"
  "total_optimizations (snd (emergency_crash_recovery online fault s)) = total_optimizations s"
  "chunks_cleared_total s \<le> chunks_cleared_total (snd (emergency_crash_recovery online fault s))"
  "entities_removed_total s \<le> entities_removed_total (snd (emergency_crash_recovery online fault s))"
  by (simp_all add: emergency_crash_recovery_def Let_def run_task_later_def optimize_memory_def
        optimize_chunks_def optimize_entities_def split: option.splits)

lemma notify_admins_lag_fields:
  "current_view_distance (snd (notify_admins_lag t online tps s)) = current_view_distance s"
  "auto_optimize (snd (notify_admins_lag t online tps s)) = auto_optimize s"
  "tick_times (snd (notify_admins_lag t online tps s)) = tick_times s"
  "tps_history (snd (notify_admins_lag t online tps s)) = tps_history s"
  "total_optimizations (snd (notify_admins_lag t online tps s)) = total_optimizations s"
  "chunks_cleared_total (snd (notify_admins_lag t online tps s)) = chunks_cleared_total s"
  "entities_removed_total (snd (notify_admins_lag t online tps s)) = entities_removed_total s"
  by (simp_all add: notify_admins_lag_def)

lemma invariant_emergency:
  "optimizer_invariant s \<Longrightarrow> optimizer_invariant (snd (emergency_crash_recovery online fault s))"
  by (simp add: optimizer_invariant_def emergency_fields view_consts)

lemma counters_emergency: "counters_le s (snd (emergency_crash_recovery online fault s))"
  by (simp add: counters_le_def emergency_fields)

lemma invariant_monitor_performance:
  "optimizer_invariant s \<Longrightarrow> optimizer_invariant (snd (monitor_performance t1 t2 online s))"
  by (simp add: optimizer_invariant_def monitor_performance_def Let_def notify_admins_lag_fields
        length_deque_append)

lemma counters_monitor_performance: "counters_le s (snd (monitor_performance t1 t2 online s))"
  by (simp add: counters_le_def monitor_performance_def Let_def notify_admins_lag_fields)

lemma invariant_fast_optimization_check:
  "optimizer_invariant s \<Longrightarrow> optimizer_invariant (snd (fast_optimization_check online fault s))"
  by (simp add: fast_optimization_check_def Let_def invariant_emergency)

lemma counters_fast_optimization_check: "counters_le s (snd (fast_optimization_check online fault s))"
  by (simp add: fast_optimization_check_def Let_def counters_emergency) (simp add: counters_le_def)

lemma invariant_auto_optimize_task:
  "optimizer_invariant s \<Longrightarrow> optimizer_invariant (auto_optimize_task t s)"
  by (simp add: optimizer_invariant_def auto_optimize_task_def Let_def optimize_chunks_fields
        optimize_entities_fields)

lemma counters_auto_optimize_task: "counters_le s (auto_optimize_task t s)"
proof -
  have "chunks_cleared_total s \<le> chunks_cleared_total (snd (optimize_entities (snd (optimize_chunks s))))"
    by (simp add: optimize_entities_fields optimize_chunks_fields)
  moreover have "entities_removed_total s
      \<le> entities_removed_total (snd (optimize_entities (snd (optimize_chunks s))))"
    using optimize_entities_fields(9) [of "snd (optimize_chunks s)"]
    by (simp add: optimize_chunks_fields)
  ultimately show ?thesis
    by (simp add: counters_le_def auto_optimize_task_def Let_def optimize_chunks_fields
          optimize_entities_fields)
qed

lemma invariant_cleanup_chunks: "optimizer_invariant s \<Longrightarrow> optimizer_invariant (cleanup_chunks s)"
  by (simp add: optimizer_invariant_def cleanup_chunks_def Let_def)

lemma counters_cleanup_chunks: "counters_le s (cleanup_chunks s)"
  by (auto simp: counters_le_def cleanup_chunks_def Let_def get_estimated_def split: option.splits)

lemma invariant_adjust_view_distance:
  "optimizer_invariant s \<Longrightarrow> optimizer_invariant (adjust_view_distance s)"
  by (auto simp: optimizer_invariant_def adjust_view_distance_def Let_def view_consts)

lemma counters_adjust_view_distance: "counters_le s (adjust_view_distance s)"
  by (simp add: counters_le_def adjust_view_distance_def Let_def)

lemma invariant_periodic_memory_cleanup:
  "optimizer_invariant s \<Longrightarrow> optimizer_invariant (periodic_memory_cleanup s)"
  by (simp add: periodic_memory_cleanup_def optimize_memory_def)

lemma counters_periodic_memory_cleanup: "counters_le s (periodic_memory_cleanup s)"
  by (simp add: counters_le_def periodic_memory_cleanup_def optimize_memory_def)

lemma invariant_update_performance_display:
  "optimizer_invariant s \<Longrightarrow> optimizer_invariant (snd (update_performance_display online s))"
  by (simp add: optimizer_invariant_def update_performance_display_def Let_def)

lemma counters_update_performance_display:
  "counters_le s (snd (update_performance_display online s))"
  by (simp add: counters_le_def update_performance_display_def Let_def)

lemma invariant_monitor_overload:
  "optimizer_invariant s \<Longrightarrow> optimizer_invariant (snd (monitor_overload online fault s))"
  by (simp add: monitor_overload_def Let_def invariant_emergency)

lemma counters_monitor_overload: "counters_le s (snd (monitor_overload online fault s))"
  by (simp add: monitor_overload_def Let_def counters_emergency) (simp add: counters_le_def)

lemma invariant_check_server_health:
  "optimizer_invariant s \<Longrightarrow> optimizer_invariant (check_server_health s)"
  by (simp add: optimizer_invariant_def check_server_health_def Let_def)

lemma counters_check_server_health: "counters_le s (check_server_health s)"
  by (simp add: counters_le_def check_server_health_def Let_def)

lemma invariant_handle_viewdistance_command:
  "optimizer_invariant s \<Longrightarrow>
   optimizer_invariant (snd (snd (handle_viewdistance_command py_int sender args s)))"
  by (auto simp: optimizer_invariant_def handle_viewdistance_command_def Let_def
        split: list.splits option.splits)

lemma counters_handle_viewdistance_command:
  "counters_le s (snd (snd (handle_viewdistance_command py_int sender args s)))"
  by (auto simp: counters_le_def handle_viewdistance_command_def Let_def
        split: list.splits option.splits)

lemma invariant_handle_performance_view:
  "optimizer_invariant s \<Longrightarrow>
   optimizer_invariant (snd (snd (handle_performance_view sender args online s)))"
  by (auto simp: optimizer_invariant_def handle_performance_view_def Let_def
        split: option.splits)

lemma counters_handle_performance_view:
  "counters_le s (snd (snd (handle_performance_view sender args online s)))"
  by (auto simp: counters_le_def handle_performance_view_def Let_def split: option.splits)

lemma invariant_full_optimization:
  "optimizer_invariant s \<Longrightarrow>
   optimizer_invariant (optimize_memory (snd (optimize_entities (snd (optimize_chunks s)))))"
  by (simp add: optimize_memory_def optimizer_invariant_def optimize_chunks_fields
        optimize_entities_fields)

lemma invariant_handle_optimize_command:
  assumes "optimizer_invariant s"
  shows "optimizer_invariant (snd (snd (handle_optimize_command sender args online s)))"
proof (cases args)
  case Nil
  then show ?thesis
    using assms by (simp add: handle_optimize_command_def)
next
  case (Cons a rest)
  then show ?thesis
    using assms invariant_full_optimization [OF assms]
      invariant_handle_performance_view [OF assms, of sender args online]
    by (simp add: handle_optimize_command_def Let_def)
qed

lemma counters_full_optimization:
  "counters_le s (snd (optimize_entities (snd (optimize_chunks s))))"
  using optimize_entities_fields(9) [of "snd (optimize_chunks s)"]
  by (simp add: counters_le_def optimize_chunks_fields optimize_entities_fields)

lemma counters_le_refl: "counters_le s s"
  by (simp add: counters_le_def)

lemma counters_handle_optimize_command:
  "counters_le s (snd (snd (handle_optimize_command sender args online s)))"
proof (cases args)
  case Nil
  then show ?thesis
    by (simp add: handle_optimize_command_def counters_le_refl)
next
  case (Cons a rest)
  then show ?thesis
    using counters_full_optimization [of s]
      counters_handle_performance_view [of s sender args online]
    by (simp add: handle_optimize_command_def Let_def optimize_memory_def counters_le_refl)
qed

lemma invariant_on_command:
  "optimizer_invariant s \<Longrightarrow>
   optimizer_invariant (snd (snd (on_command py_int sender cmd args online s)))"
  by (simp add: on_command_def invariant_handle_optimize_command
        invariant_handle_viewdistance_command handle_tps_command_def handle_lag_command_def Let_def)

lemma counters_on_command:
  "counters_le s (snd (snd (on_command py_int sender cmd args online s)))"
  by (simp add: on_command_def counters_handle_optimize_command
        counters_handle_viewdistance_command handle_tps_command_def handle_lag_command_def Let_def)
     (simp add: counters_le_def)

lemma invariant_on_player_join: "optimizer_invariant s \<Longrightarrow> optimizer_invariant (on_player_join p s)"
  by (simp add: optimizer_invariant_def on_player_join_def run_task_later_def)

lemma counters_on_player_join: "counters_le s (on_player_join p s)"
  by (simp add: counters_le_def on_player_join_def run_task_later_def)

lemma invariant_on_player_quit:
  "optimizer_invariant s \<Longrightarrow> optimizer_invariant (on_player_quit pname s)"
  by (simp add: optimizer_invariant_def on_player_quit_def Let_def)

lemma counters_on_player_quit: "counters_le s (on_player_quit pname s)"
  by (simp add: counters_le_def on_player_quit_def Let_def)

lemma run_task_fields:
  "auto_optimize (snd (run_task online t s)) = auto_optimize s"
  "tick_times (snd (run_task online t s)) = tick_times s"
  "tps_history (snd (run_task online t s)) = tps_history s"
  "scheduled (snd (run_task online t s)) = scheduled s"
  "total_optimizations (snd (run_task online t s)) = total_optimizations s"
  "chunks_cleared_total (snd (run_task online t s)) = chunks_cleared_total s"
  "entities_removed_total (snd (run_task online t s)) = entities_removed_total s"
  by (cases t; simp add: restore_normal_def)+

lemma invariant_run_task:
  "optimizer_invariant s \<Longrightarrow> optimizer_invariant (snd (run_task online t s))"
  by (cases t) (simp_all add: optimizer_invariant_def restore_normal_def view_consts)

lemma invariant_run_tasks:
  "optimizer_invariant s \<Longrightarrow> optimizer_invariant (snd (run_tasks online ts s))"
  by (induction ts arbitrary: s) (simp_all add: Let_def invariant_run_task)

lemma run_tasks_fields:
  "scheduled (snd (run_tasks online ts s)) = scheduled s \<and>
   total_optimizations (snd (run_tasks online ts s)) = total_optimizations s \<and>
   chunks_cleared_total (snd (run_tasks online ts s)) = chunks_cleared_total s \<and>
   entities_removed_total (snd (run_tasks online ts s)) = entities_removed_total s"
  by (induction ts arbitrary: s) (simp_all add: Let_def run_task_fields)

lemma invariant_scheduler_tick:
  "optimizer_invariant s \<Longrightarrow> optimizer_invariant (snd (scheduler_tick online s))"
  unfolding scheduler_tick_def Let_def
  by (rule invariant_run_tasks) (simp add: optimizer_invariant_def)

lemma counters_scheduler_tick: "counters_le s (snd (scheduler_tick online s))"
  by (simp add: counters_le_def scheduler_tick_def Let_def run_tasks_fields)

lemma step_invariant:
  "optimizer_invariant s \<Longrightarrow> optimizer_invariant (snd (step py_int operation s))"
  by (cases operation)
     (simp_all add: invariant_monitor_performance invariant_fast_optimization_check
        invariant_auto_optimize_task invariant_cleanup_chunks invariant_adjust_view_distance
        invariant_periodic_memory_cleanup invariant_update_performance_display
        invariant_monitor_overload invariant_check_server_health invariant_on_command
        invariant_on_player_join invariant_on_player_quit invariant_scheduler_tick)

lemma step_counters: "counters_le s (snd (step py_int operation s))"
  by (cases operation)
     (simp_all add: counters_monitor_performance counters_fast_optimization_check
        counters_auto_optimize_task counters_cleanup_chunks counters_adjust_view_distance
        counters_periodic_memory_cleanup counters_update_performance_display
        counters_monitor_overload counters_check_server_health counters_on_command
        counters_on_player_join counters_on_player_quit counters_scheduler_tick,
      simp_all add: counters_le_def)

lemma on_load_invariant: "optimizer_invariant (on_load now)"
  by (simp add: optimizer_invariant_def on_load_def view_consts)

lemma reachable_invariant: "reachable s \<Longrightarrow> optimizer_invariant s"
  by (induction rule: reachable.induct) (simp_all add: on_load_invariant step_invariant)

lemma counters_le_trans: "counters_le a b \<Longrightarrow> counters_le b c \<Longrightarrow> counters_le a c"
  by (auto simp: counters_le_def)

lemma reachable_run: "reachable s \<Longrightarrow> reachable (run py_int ops s)"
  by (induction ops arbitrary: s) (simp_all add: reachable_step)

lemma reachable_record_ticks: "reachable s \<Longrightarrow> reachable (record_ticks ts s)"
proof (induction ts arbitrary: s)
  case Nil
  then show ?case by simp
next
  case (Cons t ts)
  have "reachable (snd (step Map.empty (Monitor_performance t t []) s))"
    using Cons.prems by (rule reachable_step)
  then show ?case
    using Cons.IH by simp
qed

lemma restorations_run_append:
  "restorations_run (a @ b) = restorations_run a + restorations_run b"
  by (simp add: restorations_run_def)

lemma restorations_run_send_info: "restorations_run (send_info pname online s) = 0"
  by (simp add: restorations_run_def send_info_def Let_def split: option.splits)

lemma restorations_run_task:
  "restorations_run (fst (run_task online t s)) = (if t = Restore_normal then 1 else 0)"
proof (cases t)
  case Restore_normal
  then show ?thesis
    by (simp add: restorations_run_def restore_normal_def)
next
  case (Send_info pname)
  then show ?thesis
    by (simp add: restorations_run_send_info)
qed

lemma restorations_run_tasks:
  "restorations_run (fst (run_tasks online ts s)) = length (filter (\<lambda>t. t = Restore_normal) ts)"
proof (induction ts arbitrary: s)
  case Nil
  show ?case by (simp add: restorations_run_def)
next
  case (Cons t ts)
  show ?case
    by (simp add: Let_def restorations_run_append restorations_run_task Cons.IH)
qed

lemma scheduled_scheduler_tick:
  "scheduled (snd (scheduler_tick online s)) =
     map (\<lambda>e. (fst e - 1, snd e)) (filter (\<lambda>e. 1 < fst e) (scheduled s))"
  by (simp add: scheduler_tick_def Let_def run_tasks_fields)

lemma restorations_run_tick:
  "restorations_run (fst (scheduler_tick online s)) =
     length (filter (\<lambda>e. is_restoration e \<and> fst e \<le> 1) (scheduled s))"
proof -
  have "filter (\<lambda>t. t = Restore_normal) (map snd (filter (\<lambda>e. fst e \<le> 1) (scheduled s)))
      = map snd (filter (\<lambda>e. is_restoration e \<and> fst e \<le> 1) (scheduled s))"
    by (induction "scheduled s") (auto simp: filter_map o_def is_restoration_def conj_commute)
  then show ?thesis
    by (simp add: scheduler_tick_def Let_def restorations_run_tasks)
qed

lemma due_after_one_tick:
  "length (filter (\<lambda>e. is_restoration e \<and> fst e \<le> 1) xs)
     + length (filter (\<lambda>e. is_restoration e \<and> due_within n e)
         (map (\<lambda>e. (fst e - 1, snd e)) (filter (\<lambda>e. 1 < fst e) xs)))
   = length (filter (\<lambda>e. is_restoration e \<and> due_within (Suc n) e) xs)"
  by (induction xs) (auto simp: due_within_def is_restoration_def)

lemma waiting_after_one_tick:
  "map (\<lambda>e. (fst e - n, snd e)) (filter (\<lambda>e. \<not> due_within n e)
     (map (\<lambda>e. (fst e - 1, snd e)) (filter (\<lambda>e. 1 < fst e) xs)))
   = map (\<lambda>e. (fst e - Suc n, snd e)) (filter (\<lambda>e. \<not> due_within (Suc n) e) xs)"
  by (induction xs) (auto simp: due_within_def)

lemma scheduler_ticks_queue:
  "restorations_run (fst (scheduler_ticks onl s)) =
     length (filter (\<lambda>e. is_restoration e \<and> due_within (length onl) e) (scheduled s)) \<and>
   scheduled (snd (scheduler_ticks onl s)) =
     map (\<lambda>e. (fst e - length onl, snd e))
       (filter (\<lambda>e. \<not> due_within (length onl) e) (scheduled s))"
proof (induction onl arbitrary: s)
  case Nil
  show ?case
    by (simp add: restorations_run_def due_within_def)
next
  case (Cons online rest)
  let ?s1 = "snd (scheduler_tick online s)"
  let ?q1 = "map (\<lambda>e. (fst e - 1, snd e)) (filter (\<lambda>e. 1 < fst e) (scheduled s))"
  have q1: "scheduled ?s1 = ?q1"
    by (rule scheduled_scheduler_tick)
  have run: "restorations_run (fst (scheduler_ticks (online # rest) s)) =
      restorations_run (fst (scheduler_tick online s))
        + restorations_run (fst (scheduler_ticks rest ?s1))"
    by (simp add: Let_def restorations_run_append)
  have "restorations_run (fst (scheduler_ticks rest ?s1)) =
      length (filter (\<lambda>e. is_restoration e \<and> due_within (length rest) e) ?q1)"
    using Cons.IH [of ?s1] unfolding q1 by blast
  then have count: "restorations_run (fst (scheduler_ticks (online # rest) s)) =
      length (filter (\<lambda>e. is_restoration e \<and> due_within (Suc (length rest)) e) (scheduled s))"
    unfolding run restorations_run_tick
    using due_after_one_tick [of "scheduled s" "length rest"] by linarith
  have "scheduled (snd (scheduler_ticks rest ?s1)) =
      map (\<lambda>e. (fst e - length rest, snd e)) (filter (\<lambda>e. \<not> due_within (length rest) e) ?q1)"
    using Cons.IH [of ?s1] unfolding q1 by blast
  then have "scheduled (snd (scheduler_ticks rest ?s1)) =
      map (\<lambda>e. (fst e - Suc (length rest), snd e))
        (filter (\<lambda>e. \<not> due_within (Suc (length rest)) e) (scheduled s))"
    unfolding waiting_after_one_tick [of "length rest" "scheduled s"] .
  then have queue: "scheduled (snd (scheduler_ticks (online # rest) s)) =
      map (\<lambda>e. (fst e - Suc (length rest), snd e))
        (filter (\<lambda>e. \<not> due_within (Suc (length rest)) e) (scheduled s))"
    by (simp add: Let_def)
  show ?case
    using count queue by simp
qed

lemma run_tasks_keep_restored:
  "current_view_distance s = base_view_distance \<and> \<not> aggressive_mode s \<Longrightarrow>
   current_view_distance (snd (run_tasks online ts s)) = base_view_distance \<and>
   \<not> aggressive_mode (snd (run_tasks online ts s))"
proof (induction ts arbitrary: s)
  case Nil
  then show ?case by simp
next
  case (Cons t ts)
  have "current_view_distance (snd (run_task online t s)) = base_view_distance \<and>
      \<not> aggressive_mode (snd (run_task online t s))"
    using Cons.prems by (cases t) (simp_all add: restore_normal_def)
  then show ?case
    using Cons.IH by (simp add: Let_def)
qed

lemma run_tasks_restored:
  "Restore_normal \<in> set ts \<Longrightarrow>
   current_view_distance (snd (run_tasks online ts s)) = base_view_distance \<and>
   \<not> aggressive_mode (snd (run_tasks online ts s))"
proof (induction ts arbitrary: s)
  case Nil
  then show ?case by simp
next
  case (Cons t ts)
  show ?case
  proof (cases t)
    case Restore_normal
    have "current_view_distance (snd (run_task online t s)) = base_view_distance \<and>
        \<not> aggressive_mode (snd (run_task online t s))"
      using Restore_normal by (simp add: restore_normal_def)
    then show ?thesis
      using run_tasks_keep_restored [of "snd (run_task online t s)" online ts]
      by (simp add: Let_def)
  next
    case (Send_info pname)
    then have "Restore_normal \<in> set ts"
      using Cons.prems by simp
    then show ?thesis
      using Cons.IH by (simp add: Let_def)
  qed
qed

lemma scheduler_tick_restored:
  assumes "list_ex restoration_due (scheduled s)"
  shows "current_view_distance (snd (scheduler_tick online s)) = base_view_distance \<and>
    \<not> aggressive_mode (snd (scheduler_tick online s))"
proof -
  obtain e where e: "e \<in> set (scheduled s)" "snd e = Restore_normal" "fst e \<le> 1"
    using assms by (auto simp: list_ex_iff restoration_due_def is_restoration_def)
  then have "Restore_normal \<in> set (map snd (filter (\<lambda>e. fst e \<le> 1) (scheduled s)))"
    by force
  then show ?thesis
    unfolding scheduler_tick_def Let_def by (rule run_tasks_restored)
qed

lemma scheduled_handle_viewdistance_command:
  "scheduled (snd (snd (handle_viewdistance_command py_int sender args s))) = scheduled s"
  by (auto simp: handle_viewdistance_command_def Let_def split: list.splits option.splits)

lemma scheduled_handle_performance_view:
  "scheduled (snd (snd (handle_performance_view sender args online s))) = scheduled s"
  by (auto simp: handle_performance_view_def Let_def split: option.splits)

lemma scheduled_handle_optimize_command:
  "scheduled (snd (snd (handle_optimize_command sender args online s))) = scheduled s"
proof (cases args)
  case Nil
  then show ?thesis
    by (simp add: handle_optimize_command_def)
next
  case (Cons a rest)
  then show ?thesis
    using scheduled_handle_performance_view [of sender args online s]
    by (simp add: handle_optimize_command_def Let_def optimize_memory_def optimize_chunks_fields
          optimize_entities_fields)
qed

lemma scheduled_on_command:
  "scheduled (snd (snd (on_command py_int sender cmd args online s))) = scheduled s"
  by (simp add: on_command_def scheduled_handle_optimize_command
        scheduled_handle_viewdistance_command handle_tps_command_def handle_lag_command_def Let_def)

lemma scheduled_emergency:
  "take (length (scheduled s)) (scheduled (snd (emergency_crash_recovery online fault s)))
     = scheduled s"
  by (cases fault) (simp_all add: emergency_fields)

lemma step_keeps_scheduled:
  assumes "\<not> is_scheduler_tick operation"
  shows "take (length (scheduled s)) (scheduled (snd (step py_int operation s))) = scheduled s"
proof (cases operation)
  case (Monitor_performance t1 t2 online)
  then show ?thesis
    by (simp add: monitor_performance_def Let_def notify_admins_lag_def)
next
  case (Fast_optimization_check online fault)
  then show ?thesis
    by (simp add: fast_optimization_check_def Let_def scheduled_emergency)
next
  case (Auto_optimize_task t)
  then show ?thesis
    by (simp add: auto_optimize_task_def Let_def optimize_chunks_fields optimize_entities_fields)
next
  case Cleanup_chunks
  then show ?thesis
    by (simp add: cleanup_chunks_def Let_def)
next
  case Adjust_view_distance
  then show ?thesis
    by (simp add: adjust_view_distance_def Let_def)
next
  case Periodic_memory_cleanup
  then show ?thesis
    by (simp add: periodic_memory_cleanup_def optimize_memory_def)
next
  case (Update_performance_display online)
  then show ?thesis
    by (simp add: update_performance_display_def Let_def)
next
  case (Monitor_overload online fault)
  then show ?thesis
    by (simp add: monitor_overload_def Let_def scheduled_emergency)
next
  case Check_server_health
  then show ?thesis
    by (simp add: check_server_health_def Let_def)
next
  case (On_command sender cmd args online)
  then show ?thesis
    by (simp add: scheduled_on_command)
next
  case (On_player_join p)
  then show ?thesis
    by (simp add: on_player_join_def run_task_later_def)
next
  case (On_player_quit pname)
  then show ?thesis
    by (simp add: on_player_quit_def Let_def)
next
  case (Scheduler_tick online)
  then show ?thesis
    using assms by simp
qed simp_all

section \<open>Properties of the plugin\<close>

subsection \<open>C1: the TPS estimator\<close>




subsection \<open>C2: entering emergency recovery\<close>

text \<open>
  C2, as amended. Every entry into emergency recovery sets the current view
  distance to the minimum 4 and the aggressive mode to true. An entry in
  which no call into the host raises queues exactly one restoration, 6000
  ticks ahead, behind whatever the scheduler already holds, so the number of
  pending restorations grows by one; an entry in which such a call raises
  queues none. No operation other than the scheduler's tick takes anything
  off the queue. Over any number of consecutive ticks \<^verbatim>\<open>restore_normal\<close> runs
  once for each queued restoration whose delay runs out within them, and
  those restorations are off the queue afterwards, the others waiting as many
  ticks less. A tick that finds a restoration due leaves the view distance
  at the base 8 and the aggressive mode off.
\<close>

theorem emergency_entry:
  "current_view_distance (snd (emergency_crash_recovery online fault s)) = 4 \<and>
   aggressive_mode (snd (emergency_crash_recovery online fault s)) \<and>
   scheduled (snd (emergency_crash_recovery online None s))
     = scheduled s @ [(6000, Restore_normal)] \<and>
   pending_restorations (snd (emergency_crash_recovery online None s))
     = pending_restorations s + 1 \<and>
   scheduled (snd (emergency_crash_recovery online (Some k) s)) = scheduled s \<and>
   (\<not> is_scheduler_tick operation \<longrightarrow>
      take (length (scheduled s)) (scheduled (snd (step py_int operation s))) = scheduled s) \<and>
   restorations_run (fst (scheduler_ticks onl s))
     = length (filter (\<lambda>e. is_restoration e \<and> due_within (length onl) e) (scheduled s)) \<and>
   scheduled (snd (scheduler_ticks onl s))
     = map (\<lambda>e. (fst e - length onl, snd e))
         (filter (\<lambda>e. \<not> due_within (length onl) e) (scheduled s)) \<and>
   (list_ex restoration_due (scheduled s) \<longrightarrow>
      current_view_distance (snd (scheduler_tick online' s)) = 8 \<and>
      \<not> aggressive_mode (snd (scheduler_tick online' s)))"
proof -
  have entry: "current_view_distance (snd (emergency_crash_recovery online fault s)) = 4 \<and>
      aggressive_mode (snd (emergency_crash_recovery online fault s))"
    by (simp add: emergency_fields view_consts)
  have queued: "scheduled (snd (emergency_crash_recovery online None s))
        = scheduled s @ [(6000, Restore_normal)] \<and>
      pending_restorations (snd (emergency_crash_recovery online None s))
        = pending_restorations s + 1 \<and>
      scheduled (snd (emergency_crash_recovery online (Some k) s)) = scheduled s"
    by (simp add: emergency_fields pending_restorations_def is_restoration_def)
  have kept: "\<not> is_scheduler_tick operation \<longrightarrow>
      take (length (scheduled s)) (scheduled (snd (step py_int operation s))) = scheduled s"
    using step_keeps_scheduled [of operation s py_int] by blast
  have fired: "list_ex restoration_due (scheduled s) \<longrightarrow>
      current_view_distance (snd (scheduler_tick online' s)) = 8 \<and>
      \<not> aggressive_mode (snd (scheduler_tick online' s))"
    using scheduler_tick_restored [of s online'] by (simp add: view_consts)
  show ?thesis
    using entry queued kept fired scheduler_ticks_queue [of onl s] by blast
qed

theorem emergency_entry_witness:
  "scheduled (snd (emergency_crash_recovery [admin_alice] None (on_load 0)))
     = [(6000, Restore_normal)] \<and>
   scheduled (snd (emergency_crash_recovery [admin_alice] (Some 0) (on_load 0))) = [] \<and>
   \<not> is_scheduler_tick Adjust_view_distance \<and>
   scheduled (snd (step decimal_int Adjust_view_distance
       (snd (emergency_crash_recovery [admin_alice] None (on_load 0)))))
     = [(6000, Restore_normal)] \<and>
   restorations_run (fst (scheduler_ticks (quiet_ticks 5999)
       (snd (emergency_crash_recovery [admin_alice] None (on_load 0))))) = 0 \<and>
   scheduled (snd (scheduler_ticks (quiet_ticks 5999)
       (snd (emergency_crash_recovery [admin_alice] None (on_load 0)))))
     = [(1, Restore_normal)] \<and>
   list_ex restoration_due (scheduled (snd (scheduler_ticks (quiet_ticks 5999)
       (snd (emergency_crash_recovery [admin_alice] None (on_load 0)))))) \<and>
   current_view_distance (snd (scheduler_tick [] (snd (scheduler_ticks (quiet_ticks 5999)
       (snd (emergency_crash_recovery [admin_alice] None (on_load 0))))))) = 8 \<and>
   \<not> aggressive_mode (snd (scheduler_tick [] (snd (scheduler_ticks (quiet_ticks 5999)
       (snd (emergency_crash_recovery [admin_alice] None (on_load 0))))))) \<and>
   restorations_run (fst (scheduler_ticks (quiet_ticks 6000)
       (snd (emergency_crash_recovery [admin_alice] None (on_load 0))))) = 1 \<and>
   restorations_run (fst (scheduler_ticks (quiet_ticks 9000)
       (snd (emergency_crash_recovery [admin_alice] None (on_load 0))))) = 1 \<and>
   scheduled (snd (scheduler_ticks (quiet_ticks 6000)
       (snd (emergency_crash_recovery [admin_alice] None (on_load 0))))) = []"
proof -
  define s1 where "s1 = snd (emergency_crash_recovery [admin_alice] None (on_load 0))"
  define s2 where "s2 = snd (scheduler_ticks (quiet_ticks 5999) s1)"
  have q0: "scheduled (on_load 0) = []"
    by (simp add: on_load_def)
  have q1: "scheduled s1 = [(6000, Restore_normal)]"
    unfolding s1_def
    using emergency_entry [of "[admin_alice]" None "on_load 0" 0 Adjust_view_distance
        decimal_int "[]" "[]"] q0
    by simp
  have qf: "scheduled (snd (emergency_crash_recovery [admin_alice] (Some 0) (on_load 0))) = []"
    using emergency_entry [of "[admin_alice]" None "on_load 0" 0 Adjust_view_distance
        decimal_int "[]" "[]"] q0
    by simp
  have nt: "\<not> is_scheduler_tick Adjust_view_distance"
    by simp
  have "take (length (scheduled s1)) (scheduled (snd (step decimal_int Adjust_view_distance s1)))
      = scheduled s1"
    using emergency_entry [of "[]" None s1 0 Adjust_view_distance decimal_int "[]" "[]"] nt
    by blast
  moreover have "scheduled (snd (step decimal_int Adjust_view_distance s1)) = scheduled s1"
    by (simp add: adjust_view_distance_def Let_def)
  ultimately have qa: "scheduled (snd (step decimal_int Adjust_view_distance s1))
      = [(6000, Restore_normal)]"
    by (simp add: q1)
  have ticks: "restorations_run (fst (scheduler_ticks (quiet_ticks n) s1))
        = (if due_within n (6000, Restore_normal) then 1 else 0) \<and>
      scheduled (snd (scheduler_ticks (quiet_ticks n) s1))
        = (if due_within n (6000, Restore_normal) then [] else [(6000 - n, Restore_normal)])"
    for n
    using emergency_entry [of "[]" None s1 0 Adjust_view_distance decimal_int "quiet_ticks n" "[]"]
    by (simp add: q1 quiet_ticks_def is_restoration_def)
  have r5999: "restorations_run (fst (scheduler_ticks (quiet_ticks 5999) s1)) = 0"
    and q5999: "scheduled s2 = [(1, Restore_normal)]"
    using ticks [of 5999] by (simp_all add: due_within_def s2_def)
  have r6000: "restorations_run (fst (scheduler_ticks (quiet_ticks 6000) s1)) = 1"
    and q6000: "scheduled (snd (scheduler_ticks (quiet_ticks 6000) s1)) = []"
    using ticks [of 6000] by (simp_all add: due_within_def)
  have r9000: "restorations_run (fst (scheduler_ticks (quiet_ticks 9000) s1)) = 1"
    using ticks [of 9000] by (simp add: due_within_def)
  have due: "list_ex restoration_due (scheduled s2)"
    by (simp add: q5999 restoration_due_def is_restoration_def)
  have restored: "current_view_distance (snd (scheduler_tick [] s2)) = 8 \<and>
      \<not> aggressive_mode (snd (scheduler_tick [] s2))"
    using emergency_entry [of "[]" None s2 0 Adjust_view_distance decimal_int "[]" "[]"] due
    by blast
  show ?thesis
    using q1 qf nt qa r5999 q5999 due restored r6000 r9000 q6000
    unfolding s1_def s2_def by blast
qed

text \<open>
  C2 as stated fails: after twenty one-second ticks the TPS is 1, and two
  fast checks in a row, before any restoration has run, leave two
  restorations pending.
\<close>

theorem emergency_restorations_stack:
  "\<not> pending_restorations
       (snd (fast_optimization_check [] None
          (snd (fast_optimization_check [] None (record_ticks slow_ticks (on_load 0)))))) \<le> 1"
  by code_simp

subsection \<open>C3: the view distance stays within its bounds\<close>

text \<open>
  C3. In every state the plugin reaches the current view distance is between
  4 and 12, and it still is after any further operation (the adjuster, an
  emergency entry, a restoration, a manual set, or any other). With automatic
  adjustment on, one run of the adjuster does not raise the view distance
  when the TPS is below 17 and does not lower it when the TPS is at least
  19.5.
\<close>

theorem view_distance_bounds:
  assumes "reachable s"
  shows "4 \<le> current_view_distance s \<and> current_view_distance s \<le> 12 \<and>
    4 \<le> current_view_distance (snd (step py_int operation s)) \<and>
    current_view_distance (snd (step py_int operation s)) \<le> 12 \<and>
    (auto_view_distance s \<and> float_lt (calculate_tps s) (Finite 17) \<longrightarrow>
       current_view_distance (adjust_view_distance s) \<le> current_view_distance s) \<and>
    (auto_view_distance s \<and> float_le (Finite (39 / 2)) (calculate_tps s) \<longrightarrow>
       current_view_distance (adjust_view_distance s) \<ge> current_view_distance s)"
proof -
  have inv: "4 \<le> current_view_distance s \<and> current_view_distance s \<le> 12"
    using reachable_invariant [OF assms] by (simp add: optimizer_invariant_def view_consts)
  have "reachable (snd (step py_int operation s))"
    using assms by (rule reachable_step)
  then have "optimizer_invariant (snd (step py_int operation s))"
    by (rule reachable_invariant)
  then have after: "4 \<le> current_view_distance (snd (step py_int operation s)) \<and>
      current_view_distance (snd (step py_int operation s)) \<le> 12"
    by (simp add: optimizer_invariant_def view_consts)
  have low: "\<not> float_le (Finite (39 / 2)) (calculate_tps s)"
    if "float_lt (calculate_tps s) (Finite 17)"
    using that by (rule float_lt_not_le) simp
  have high: "\<not> float_lt (calculate_tps s) (Finite 17) \<and> \<not> float_lt (calculate_tps s) (Finite 15)"
    if "float_le (Finite (39 / 2)) (calculate_tps s)"
    using that float_le_not_lt [of "39 / 2" "calculate_tps s" 17]
      float_le_not_lt [of "39 / 2" "calculate_tps s" 15]
    by simp
  have "auto_view_distance s \<and> float_lt (calculate_tps s) (Finite 17) \<longrightarrow>
      current_view_distance (adjust_view_distance s) \<le> current_view_distance s"
    using inv low by (auto simp: adjust_view_distance_def Let_def view_consts tps_critical_def)
  moreover have "auto_view_distance s \<and> float_le (Finite (39 / 2)) (calculate_tps s) \<longrightarrow>
      current_view_distance (adjust_view_distance s) \<ge> current_view_distance s"
    using inv high by (auto simp: adjust_view_distance_def Let_def view_consts tps_critical_def)
  ultimately show ?thesis
    using inv after by blast
qed

theorem view_distance_bounds_witness:
  "reachable (on_load 0) \<and> auto_view_distance (on_load 0) \<and>
   float_le (Finite (39 / 2)) (calculate_tps (on_load 0)) \<and>
   current_view_distance (adjust_view_distance (on_load 0)) \<ge> current_view_distance (on_load 0) \<and>
   reachable (record_ticks slow_ticks (on_load 0)) \<and>
   auto_view_distance (record_ticks slow_ticks (on_load 0)) \<and>
   float_lt (calculate_tps (record_ticks slow_ticks (on_load 0))) (Finite 17) \<and>
   current_view_distance (adjust_view_distance (record_ticks slow_ticks (on_load 0)))
     \<le> current_view_distance (record_ticks slow_ticks (on_load 0)) \<and>
   current_view_distance
     (snd (step decimal_int (On_command operator_console ''viewdistance'' [''12''] []) (on_load 0)))
     \<le> 12"
proof -
  have r0: "reachable (on_load 0)"
    by (rule reachable_init)
  have a0: "auto_view_distance (on_load 0)"
    by (simp add: on_load_def)
  have c0: "float_le (Finite (39 / 2)) (calculate_tps (on_load 0))"
    by (simp add: on_load_def calculate_tps_def)
  have r1: "reachable (record_ticks slow_ticks (on_load 0))"
    by (rule reachable_record_ticks [OF reachable_init])
  have a1: "auto_view_distance (record_ticks slow_ticks (on_load 0))"
    by code_simp
  have c1: "float_lt (calculate_tps (record_ticks slow_ticks (on_load 0))) (Finite 17)"
    by code_simp
  show ?thesis
    using r0 a0 c0 r1 a1 c1
      view_distance_bounds [OF r0, of decimal_int
        "On_command operator_console ''viewdistance'' [''12''] []"]
      view_distance_bounds [OF r1, of decimal_int Adjust_view_distance]
    by blast
qed

subsection \<open>C4: chunk optimization\<close>

text \<open>
  C4. \<open>optimize_chunks\<close> takes the threshold 300 in aggressive mode and 500
  otherwise. If the estimated chunk count is above the threshold, it returns
  the estimate minus the threshold, clears the estimate (which then reads 0)
  and adds the returned count to the chunks-cleared total; otherwise it
  returns 0 and changes nothing. With the estimate 600 it returns 100, or 300
  in aggressive mode.
\<close>

theorem optimize_chunks_threshold:
  "(get_estimated s 0 > (if aggressive_mode s then 300 else 500) \<longrightarrow>
      optimize_chunks s =
        (get_estimated s 0 - (if aggressive_mode s then 300 else 500),
         s\<lparr>loaded_chunks := Map.empty,
           chunks_cleared_total := chunks_cleared_total s
             + (get_estimated s 0 - (if aggressive_mode s then 300 else 500))\<rparr>) \<and>
      get_estimated (snd (optimize_chunks s)) 0 = 0) \<and>
   (\<not> get_estimated s 0 > (if aggressive_mode s then 300 else 500) \<longrightarrow>
      optimize_chunks s = (0, s)) \<and>
   (loaded_chunks s ''estimated'' = Some 600 \<longrightarrow>
      fst (optimize_chunks s) = (if aggressive_mode s then 300 else 100) \<and>
      get_estimated (snd (optimize_chunks s)) 0 = 0)"
  by (simp add: optimize_chunks_def get_estimated_def Let_def)

theorem optimize_chunks_threshold_witness:
  "fst (optimize_chunks ((on_load 0)\<lparr>loaded_chunks := [''estimated'' \<mapsto> 600]\<rparr>)) = 100 \<and>
   fst (optimize_chunks ((on_load 0)\<lparr>loaded_chunks := [''estimated'' \<mapsto> 600],
                                      aggressive_mode := True\<rparr>)) = 300 \<and>
   chunks_cleared_total
     (snd (optimize_chunks ((on_load 0)\<lparr>loaded_chunks := [''estimated'' \<mapsto> 600]\<rparr>))) = 100 \<and>
   get_estimated
     (snd (optimize_chunks ((on_load 0)\<lparr>loaded_chunks := [''estimated'' \<mapsto> 600]\<rparr>))) 0 = 0 \<and>
   \<not> get_estimated ((on_load 0)\<lparr>loaded_chunks := [''estimated'' \<mapsto> 500]\<rparr>) 0 > 500 \<and>
   optimize_chunks ((on_load 0)\<lparr>loaded_chunks := [''estimated'' \<mapsto> 500]\<rparr>)
     = (0, (on_load 0)\<lparr>loaded_chunks := [''estimated'' \<mapsto> 500]\<rparr>)"
  using optimize_chunks_threshold [of "(on_load 0)\<lparr>loaded_chunks := [''estimated'' \<mapsto> 600]\<rparr>"]
    optimize_chunks_threshold [of "(on_load 0)\<lparr>loaded_chunks := [''estimated'' \<mapsto> 600],
                                      aggressive_mode := True\<rparr>"]
    optimize_chunks_threshold [of "(on_load 0)\<lparr>loaded_chunks := [''estimated'' \<mapsto> 500]\<rparr>"]
  by (simp add: on_load_def get_estimated_def)

subsection \<open>C5: the manual view-distance command\<close>

text \<open>
  C5. A sender who holds the command's permission gives the view-distance
  command an argument other than the word auto. If the argument is not a
  number, or is a number below 4 or above 12, the command returns false after
  sending the sender the matching error message, and the state is unchanged.
  If it is a number \<open>v\<close> from 4 to 12 the command returns true, the current
  view distance becomes \<open>v\<close> and automatic adjustment is switched off.
\<close>

theorem viewdistance_command_numeric:
  assumes "has_permission sender ''serveropt.command.viewdistance''"
    and "str_lower a \<noteq> ''auto''"
  shows
    "(py_int a = None \<longrightarrow>
        handle_viewdistance_command py_int sender (a # rest) s
          = (False, [Send_error_message (player_name sender) Vd_not_a_number], s)) \<and>
     (py_int a = Some v \<and> (v < 4 \<or> 12 < v) \<longrightarrow>
        handle_viewdistance_command py_int sender (a # rest) s
          = (False, [Send_error_message (player_name sender) Vd_out_of_range], s)) \<and>
     (py_int a = Some v \<and> 4 \<le> v \<and> v \<le> 12 \<longrightarrow>
        handle_viewdistance_command py_int sender (a # rest) s
          = (True, [Send_message (player_name sender) (Vd_set v)],
             s\<lparr>current_view_distance := v, auto_view_distance := False\<rparr>))"
  using assms by (auto simp: handle_viewdistance_command_def view_consts Let_def)

theorem viewdistance_command_numeric_witness:
  "has_permission operator_console ''serveropt.command.viewdistance'' \<and>
   str_lower ''3'' \<noteq> ''auto'' \<and> str_lower ''10'' \<noteq> ''auto'' \<and>
   str_lower ''13'' \<noteq> ''auto'' \<and> str_lower ''ten'' \<noteq> ''auto'' \<and>
   handle_viewdistance_command decimal_int operator_console [''3''] (on_load 0)
     = (False, [Send_error_message ''console'' Vd_out_of_range], on_load 0) \<and>
   handle_viewdistance_command decimal_int operator_console [''13''] (on_load 0)
     = (False, [Send_error_message ''console'' Vd_out_of_range], on_load 0) \<and>
   handle_viewdistance_command decimal_int operator_console [''ten''] (on_load 0)
     = (False, [Send_error_message ''console'' Vd_not_a_number], on_load 0) \<and>
   handle_viewdistance_command decimal_int operator_console [''10''] (on_load 0)
     = (True, [Send_message ''console'' (Vd_set 10)],
        (on_load 0)\<lparr>current_view_distance := 10, auto_view_distance := False\<rparr>)"
proof -
  have p: "has_permission operator_console ''serveropt.command.viewdistance''"
    by (simp add: has_permission_def operator_console_def)
  have l3: "str_lower ''3'' \<noteq> ''auto''" and l10: "str_lower ''10'' \<noteq> ''auto''"
    and l13: "str_lower ''13'' \<noteq> ''auto''" and lten: "str_lower ''ten'' \<noteq> ''auto''"
    by (simp_all add: str_lower_def)
  have d3: "decimal_int ''3'' = Some 3" and d10: "decimal_int ''10'' = Some 10"
    and d13: "decimal_int ''13'' = Some 13" and dten: "decimal_int ''ten'' = None"
    by code_simp+
  have n: "player_name operator_console = ''console''"
    by (simp add: operator_console_def)
  show ?thesis
    using p l3 l10 l13 lten
      viewdistance_command_numeric [OF p l3, where py_int = decimal_int and v = 3
        and rest = "[]" and s = "on_load 0"]
      viewdistance_command_numeric [OF p l13, where py_int = decimal_int and v = 13
        and rest = "[]" and s = "on_load 0"]
      viewdistance_command_numeric [OF p lten, where py_int = decimal_int and v = 0
        and rest = "[]" and s = "on_load 0"]
      viewdistance_command_numeric [OF p l10, where py_int = decimal_int and v = 10
        and rest = "[]" and s = "on_load 0"]
    by (simp add: d3 d10 d13 dten n)
qed

subsection \<open>C6: the fast path into emergency recovery\<close>

text \<open>
  C6. In every state the plugin reaches in which the computed TPS is below
  15, the fast optimization check does exactly what an entry into emergency
  recovery does, whoever is online and whatever the chunk estimate is: the
  view distance drops to 4, the aggressive mode is on and, when no call into
  the host raises during the entry, one more restoration is pending. (The
  check is behind the auto-optimize flag, which \<^verbatim>\<open>on_load\<close> sets and nothing
  ever clears.)
\<close>

theorem fast_check_triggers_emergency:
  assumes "reachable s" and "float_lt (calculate_tps s) (Finite 15)"
  shows "fast_optimization_check online fault s = emergency_crash_recovery online fault s \<and>
    current_view_distance (snd (fast_optimization_check online fault s)) = 4 \<and>
    aggressive_mode (snd (fast_optimization_check online fault s)) \<and>
    pending_restorations (snd (fast_optimization_check online None s))
      = pending_restorations s + 1"
proof -
  have "auto_optimize s"
    using reachable_invariant [OF assms(1)] by (simp add: optimizer_invariant_def)
  then have eq: "fast_optimization_check online f s = emergency_crash_recovery online f s" for f
    using assms(2) by (simp add: fast_optimization_check_def Let_def tps_critical_def)
  show ?thesis
    unfolding eq
    by (simp add: emergency_fields view_consts pending_restorations_def is_restoration_def)
qed

theorem fast_check_triggers_emergency_witness:
  "reachable (record_ticks slow_ticks (on_load 0)) \<and>
   float_lt (calculate_tps (record_ticks slow_ticks (on_load 0))) (Finite 15) \<and>
   fast_optimization_check [guest_bob] None (record_ticks slow_ticks (on_load 0))
     = emergency_crash_recovery [guest_bob] None (record_ticks slow_ticks (on_load 0)) \<and>
   current_view_distance
     (snd (fast_optimization_check [guest_bob] None (record_ticks slow_ticks (on_load 0)))) = 4"
proof -
  have r: "reachable (record_ticks slow_ticks (on_load 0))"
    by (rule reachable_record_ticks [OF reachable_init])
  have c: "float_lt (calculate_tps (record_ticks slow_ticks (on_load 0))) (Finite 15)"
    by code_simp
  show ?thesis
    using r c fast_check_triggers_emergency [OF r c, of "[guest_bob]" None] by blast
qed

subsection \<open>C7: the running totals never decrease\<close>

text \<open>
  C7. Over any run of operations, from any state, none of the three totals
  (optimizations, chunks cleared, entities removed) ends below where it
  started.
\<close>

theorem counters_never_decrease:
  "total_optimizations s \<le> total_optimizations (run py_int ops s) \<and>
   chunks_cleared_total s \<le> chunks_cleared_total (run py_int ops s) \<and>
   entities_removed_total s \<le> entities_removed_total (run py_int ops s)"
proof -
  have "counters_le s (run py_int ops s)"
  proof (induction ops arbitrary: s)
    case Nil
    show ?case by (simp add: counters_le_refl)
  next
    case (Cons operation ops)
    have "counters_le s (snd (step py_int operation s))"
      by (rule step_counters)
    moreover have "counters_le (snd (step py_int operation s))
        (run py_int ops (snd (step py_int operation s)))"
      by (rule Cons.IH)
    ultimately show ?case
      by (simp add: counters_le_trans)
  qed
  then show ?thesis
    by (simp add: counters_le_def)
qed

subsection \<open>C8: the alert cooldown\<close>

text \<open>
  C8. \<open>notify_admins_lag\<close> sends nothing and changes nothing when the clock
  reads less than 60 seconds past the last alert. Otherwise it records the
  clock reading as the last alert and sends one warning to each online player
  who is an operator or holds the admin permission. So when a call that sends
  its burst is followed by a call less than 60 seconds later, the second
  sends nothing and changes nothing: one burst in all; and of any two calls
  less than 60 seconds apart at most one sends anything. (The time passed is
  the difference of the two clock readings as the plugin computes it.)
\<close>

theorem notify_admins_lag_cooldown:
  "(float_lt (float_sub current_time (last_lag_alert s)) (Finite 60) \<longrightarrow>
      notify_admins_lag current_time online tps s = ([], s)) \<and>
   (\<not> float_lt (float_sub current_time (last_lag_alert s)) (Finite 60) \<longrightarrow>
      notify_admins_lag current_time online tps s
        = (lag_burst online tps, s\<lparr>last_lag_alert := current_time\<rparr>)) \<and>
   (\<not> float_lt (float_sub current_time (last_lag_alert s)) (Finite 60) \<and>
    float_lt (float_sub later current_time) (Finite 60) \<longrightarrow>
      notify_admins_lag later online' tps'
          (snd (notify_admins_lag current_time online tps s))
        = ([], s\<lparr>last_lag_alert := current_time\<rparr>)) \<and>
   (float_lt (float_sub later current_time) (Finite 60) \<longrightarrow>
      fst (notify_admins_lag current_time online tps s) = [] \<or>
      fst (notify_admins_lag later online' tps'
             (snd (notify_admins_lag current_time online tps s))) = [])"
  by (simp add: notify_admins_lag_def lag_burst_def lag_alert_cooldown_def)

theorem notify_admins_lag_cooldown_witness:
  "\<not> float_lt (float_sub 1000 (last_lag_alert (on_load 0))) (Finite 60) \<and>
   float_lt (float_sub 1059 1000) (Finite 60) \<and>
   notify_admins_lag 1000 [admin_alice, guest_bob] (Finite 10) (on_load 0)
     = ([Send_message ''alice'' (Low_tps_warning Red (Finite 10))],
        (on_load 0)\<lparr>last_lag_alert := 1000\<rparr>) \<and>
   notify_admins_lag 1059 [admin_alice, guest_bob] (Finite 10)
       (snd (notify_admins_lag 1000 [admin_alice, guest_bob] (Finite 10) (on_load 0)))
     = ([], (on_load 0)\<lparr>last_lag_alert := 1000\<rparr>)"
proof -
  have h: "\<not> float_lt (float_sub 1000 (last_lag_alert (on_load 0))) (Finite 60)"
    by code_simp
  have g: "float_lt (float_sub 1059 1000) (Finite 60)"
    by code_simp
  note cooldown = notify_admins_lag_cooldown [of 1000 "on_load 0" "[admin_alice, guest_bob]"
      "Finite 10" 1059 "[admin_alice, guest_bob]" "Finite 10"]
  have first: "notify_admins_lag 1000 [admin_alice, guest_bob] (Finite 10) (on_load 0)
      = (lag_burst [admin_alice, guest_bob] (Finite 10), (on_load 0)\<lparr>last_lag_alert := 1000\<rparr>)"
    using cooldown h by blast
  have second: "notify_admins_lag 1059 [admin_alice, guest_bob] (Finite 10)
       (snd (notify_admins_lag 1000 [admin_alice, guest_bob] (Finite 10) (on_load 0)))
     = ([], (on_load 0)\<lparr>last_lag_alert := 1000\<rparr>)"
    using cooldown h g by blast
  have burst: "lag_burst [admin_alice, guest_bob] (Finite 10)
      = [Send_message ''alice'' (Low_tps_warning Red (Finite 10))]"
    by (simp add: lag_burst_def is_admin_def has_permission_def admin_alice_def guest_bob_def
          get_tps_color_def)
  show ?thesis
    using h g first second burst by simp
qed

subsection \<open>C9: the range of the computed TPS\<close>

text \<open>
  C9, as amended. For every window the value \<open>calculate_tps\<close> computes is at
  most 20, and it is at least 0 when no duration of the window is negative.
  The per-tick monitor appends to the TPS history, a window of capacity 60,
  the value computed from the window it has just extended; that value is at
  most 20, and at least 0 when no earlier duration is negative and the clock
  has not gone back since the last tick.
\<close>

theorem tps_range:
  "float_le (calculate_tps s) (Finite 20) \<and>
   (nonnegative_window (tick_times s) \<longrightarrow> float_le (Finite 0) (calculate_tps s)) \<and>
   tps_history (snd (monitor_performance t1 t2 online s))
     = deque_append 60 (tps_history s) (calculate_tps (snd (monitor_performance t1 t2 online s))) \<and>
   float_le (calculate_tps (snd (monitor_performance t1 t2 online s))) (Finite 20) \<and>
   (nonnegative_window (tick_times s) \<and> last_tick s \<le> t1 \<longrightarrow>
      float_le (Finite 0) (calculate_tps (snd (monitor_performance t1 t2 online s))))"
proof -
  let ?s' = "snd (monitor_performance t1 t2 online s)"
  define s2 where "s2 = s\<lparr>last_tick := t1,
    tick_times := deque_append 200 (tick_times s) (float_sub t1 (last_tick s))\<rparr>"
  have tt2: "tick_times ?s' = tick_times s2"
    by (simp add: monitor_performance_def Let_def notify_admins_lag_fields s2_def)
  have tt: "tick_times ?s' = deque_append 200 (tick_times s) (float_sub t1 (last_tick s))"
    by (simp add: tt2) (simp add: s2_def)
  have "tps_history ?s' = deque_append 60 (tps_history s) (calculate_tps s2)"
    by (simp add: monitor_performance_def Let_def notify_admins_lag_fields s2_def)
  moreover have "calculate_tps ?s' = calculate_tps s2"
    using tt2 by (rule calculate_tps_cong)
  ultimately have hist: "tps_history ?s' = deque_append 60 (tps_history s) (calculate_tps ?s')"
    by simp
  have nn: "nonnegative_window (tick_times ?s')"
    if "nonnegative_window (tick_times s)" and "last_tick s \<le> t1"
    using that float_sub_nonneg [of "last_tick s" t1] unfolding tt
    by (auto simp: nonnegative_window_def deque_append_def Let_def list_all_iff
          dest: in_set_dropD)
  show ?thesis
    using calculate_tps_le [of s] calculate_tps_le [of ?s']
      calculate_tps_nonneg [of s] calculate_tps_nonneg [of ?s'] hist nn
    by simp
qed

theorem tps_range_witness:
  "nonnegative_window (tick_times (record_ticks slow_ticks (on_load 0))) \<and>
   last_tick (record_ticks slow_ticks (on_load 0)) \<le> 21 \<and>
   float_le (Finite 0) (calculate_tps (record_ticks slow_ticks (on_load 0))) \<and>
   float_le (Finite 0)
     (calculate_tps (snd (monitor_performance 21 21 [] (record_ticks slow_ticks (on_load 0)))))"
proof -
  have n: "nonnegative_window (tick_times (record_ticks slow_ticks (on_load 0)))"
    by code_simp
  have l: "last_tick (record_ticks slow_ticks (on_load 0)) \<le> 21"
    by code_simp
  show ?thesis
    using n l tps_range [of "record_ticks slow_ticks (on_load 0)" 21 21 "[]"]
    by blast
qed

text \<open>
  C9 as stated fails: the plugin loads at clock reading 100 and the clock
  then reads 99, 98, ..., 80 at the next twenty ticks, so every duration is
  -1 and the value the monitor appends last is negative.
\<close>

theorem tps_negative_when_clock_runs_back:
  "float_lt (last (tps_history (record_ticks backward_ticks (on_load 100)))) (Finite 0)"
  by code_simp

subsection \<open>C10: the word auto toggles automatic adjustment\<close>

text \<open>
  C10. When a sender who holds the command's permission gives the
  view-distance command the word auto (in any letter case), the command
  returns true, the automatic-adjustment flag becomes the negation of what it
  was, and the current view distance is unchanged.
\<close>

theorem viewdistance_auto_toggles:
  assumes "has_permission sender ''serveropt.command.viewdistance''"
    and "str_lower a = ''auto''"
  shows "handle_viewdistance_command py_int sender (a # rest) s
     = (True, [Send_message (player_name sender) (Vd_auto_set (\<not> auto_view_distance s))],
        s\<lparr>auto_view_distance := \<not> auto_view_distance s\<rparr>) \<and>
     current_view_distance (snd (snd (handle_viewdistance_command py_int sender (a # rest) s)))
       = current_view_distance s \<and>
     auto_view_distance (snd (snd (handle_viewdistance_command py_int sender (a # rest) s)))
       = (\<not> auto_view_distance s)"
  using assms by (simp add: handle_viewdistance_command_def Let_def)

theorem viewdistance_auto_toggles_witness:
  "has_permission operator_console ''serveropt.command.viewdistance'' \<and>
   str_lower ''AUTO'' = ''auto'' \<and>
   auto_view_distance (on_load 0) \<and>
   \<not> auto_view_distance
       (snd (snd (handle_viewdistance_command decimal_int operator_console [''AUTO''] (on_load 0)))) \<and>
   auto_view_distance
       (snd (snd (handle_viewdistance_command decimal_int operator_console [''AUTO'']
          (snd (snd (handle_viewdistance_command decimal_int operator_console [''AUTO'']
             (on_load 0))))))) \<and>
   current_view_distance
       (snd (snd (handle_viewdistance_command decimal_int operator_console [''AUTO''] (on_load 0))))
     = 8"
proof -
  have p: "has_permission operator_console ''serveropt.command.viewdistance''"
    by (simp add: has_permission_def operator_console_def)
  have l: "str_lower ''AUTO'' = ''auto''"
    by code_simp
  show ?thesis
    using p l
      viewdistance_auto_toggles [OF p l, where py_int = decimal_int and rest = "[]"
        and s = "on_load 0"]
      viewdistance_auto_toggles [OF p l, where py_int = decimal_int and rest = "[]"
        and s = "(on_load 0)\<lparr>auto_view_distance := False\<rparr>"]
    by (simp add: on_load_def view_consts)
qed

end
